theory Spec2Isabelle
  imports Complex_Main
begin

section \<open>The syntax tree\<close>

text \<open>
  The program reads the tree that the parser returns. Every node has a kind name
  (\<open>type\<close>) and a source location (\<open>loc\<close>); \<open>loc.start\<close> and \<open>loc.end\<close> are
  positions with a line and a column.
\<close>

record position =
  line :: int
  column :: int

record sourceLocation =
  start :: position
  finish :: position

text \<open>The value of a literal, and of a descriptor's \<open>defaultValue\<close>: a string or a number.\<close>

datatype jsvalue = JString string | JNumber real

text \<open>
  One constructor per node kind of which the program reads a property beyond \<open>type\<close> and
  \<open>loc\<close>; the arguments after the location are those properties, in the order in which the
  traversal walks them. A property that may be \<open>null\<close> is an \<open>option\<close>. \<open>Other t l cs\<close> is
  a node of any remaining kind \<open>t\<close>, with its child nodes \<open>cs\<close> in traversal order; with the
  kind name of one of the constructors it is an object of that kind that lacks the
  properties, and a read of one of them gives \<open>undefined\<close>. Child nodes for which no visitor
  is registered and of which nothing is read (the source string of a re-export, type
  annotations) are left out.
\<close>

datatype node =
    Identifier sourceLocation string
  | StringLiteral sourceLocation string
  | NumericLiteral sourceLocation real
  | ArrayExpression sourceLocation "node list"
  | ObjectExpression sourceLocation "node list"
  | ObjectProperty sourceLocation node node
  | FunctionExpression sourceLocation "node option" "node list" node
  | ArrowFunctionExpression sourceLocation "node list" node
  | FunctionDeclaration sourceLocation "node option" "node list" node
  | VariableDeclaration sourceLocation "node list"
  | VariableDeclarator sourceLocation node "node option"
  | ExportNamedDeclaration sourceLocation "node option" "node list"
  | ExportDefaultDeclaration sourceLocation node
  | AssignmentExpression sourceLocation node node
  | MemberExpression sourceLocation node node
  | AssignmentPattern sourceLocation node node
  | RestElement sourceLocation node
  | ObjectPattern sourceLocation "node list"
  | Other string sourceLocation "node list"

text \<open>\<open>node.type\<close> and \<open>node.loc\<close>.\<close>

fun node_type :: "node \<Rightarrow> string" where
  "node_type (Identifier l s) = ''Identifier''"
| "node_type (StringLiteral l s) = ''StringLiteral''"
| "node_type (NumericLiteral l v) = ''NumericLiteral''"
| "node_type (ArrayExpression l es) = ''ArrayExpression''"
| "node_type (ObjectExpression l ps) = ''ObjectExpression''"
| "node_type (ObjectProperty l k v) = ''ObjectProperty''"
| "node_type (FunctionExpression l i ps b) = ''FunctionExpression''"
| "node_type (ArrowFunctionExpression l ps b) = ''ArrowFunctionExpression''"
| "node_type (FunctionDeclaration l i ps b) = ''FunctionDeclaration''"
| "node_type (VariableDeclaration l ds) = ''VariableDeclaration''"
| "node_type (VariableDeclarator l i e) = ''VariableDeclarator''"
| "node_type (ExportNamedDeclaration l d ss) = ''ExportNamedDeclaration''"
| "node_type (ExportDefaultDeclaration l d) = ''ExportDefaultDeclaration''"
| "node_type (AssignmentExpression l a b) = ''AssignmentExpression''"
| "node_type (MemberExpression l ob p) = ''MemberExpression''"
| "node_type (AssignmentPattern l a b) = ''AssignmentPattern''"
| "node_type (RestElement l a) = ''RestElement''"
| "node_type (ObjectPattern l ps) = ''ObjectPattern''"
| "node_type (Other t l cs) = t"

fun node_loc :: "node \<Rightarrow> sourceLocation" where
  "node_loc (Identifier l s) = l"
| "node_loc (StringLiteral l s) = l"
| "node_loc (NumericLiteral l v) = l"
| "node_loc (ArrayExpression l es) = l"
| "node_loc (ObjectExpression l ps) = l"
| "node_loc (ObjectProperty l k v) = l"
| "node_loc (FunctionExpression l i ps b) = l"
| "node_loc (ArrowFunctionExpression l ps b) = l"
| "node_loc (FunctionDeclaration l i ps b) = l"
| "node_loc (VariableDeclaration l ds) = l"
| "node_loc (VariableDeclarator l i e) = l"
| "node_loc (ExportNamedDeclaration l d ss) = l"
| "node_loc (ExportDefaultDeclaration l d) = l"
| "node_loc (AssignmentExpression l a b) = l"
| "node_loc (MemberExpression l ob p) = l"
| "node_loc (AssignmentPattern l a b) = l"
| "node_loc (RestElement l a) = l"
| "node_loc (ObjectPattern l ps) = l"
| "node_loc (Other t l cs) = l"

text \<open>
  The other property reads. \<open>None\<close> is what JavaScript gives as \<open>undefined\<close> or \<open>null\<close>:
  reading a property of it raises a \<open>TypeError\<close>, which the functions below write out.
\<close>

fun node_name :: "node \<Rightarrow> string option" where
  "node_name (Identifier l s) = Some s"
| "node_name _ = None"

fun node_value :: "node \<Rightarrow> jsvalue option" where
  "node_value (StringLiteral l s) = Some (JString s)"
| "node_value (NumericLiteral l v) = Some (JNumber v)"
| "node_value _ = None"

fun property_value :: "node \<Rightarrow> node option" where
  "property_value (ObjectProperty l k v) = Some v"
| "property_value _ = None"

fun node_left :: "node \<Rightarrow> node option" where
  "node_left (AssignmentPattern l a b) = Some a"
| "node_left (AssignmentExpression l a b) = Some a"
| "node_left _ = None"

fun node_right :: "node \<Rightarrow> node option" where
  "node_right (AssignmentPattern l a b) = Some b"
| "node_right (AssignmentExpression l a b) = Some b"
| "node_right _ = None"

fun node_argument :: "node \<Rightarrow> node option" where
  "node_argument (RestElement l a) = Some a"
| "node_argument _ = None"

fun node_properties :: "node \<Rightarrow> node list option" where
  "node_properties (ObjectPattern l ps) = Some ps"
| "node_properties (ObjectExpression l ps) = Some ps"
| "node_properties _ = None"

fun node_property :: "node \<Rightarrow> node option" where
  "node_property (MemberExpression l ob p) = Some p"
| "node_property _ = None"

fun node_declarations :: "node \<Rightarrow> node list option" where
  "node_declarations (VariableDeclaration l ds) = Some ds"
| "node_declarations _ = None"

fun node_init :: "node \<Rightarrow> node option" where
  "node_init (VariableDeclarator l i e) = e"
| "node_init _ = None"

fun node_id :: "node \<Rightarrow> node option" where
  "node_id (VariableDeclarator l i e) = Some i"
| "node_id (FunctionDeclaration l i ps b) = i"
| "node_id (FunctionExpression l i ps b) = i"
| "node_id _ = None"

fun node_params :: "node \<Rightarrow> node list option" where
  "node_params (FunctionDeclaration l i ps b) = Some ps"
| "node_params (FunctionExpression l i ps b) = Some ps"
| "node_params (ArrowFunctionExpression l ps b) = Some ps"
| "node_params _ = None"

fun node_declaration :: "node \<Rightarrow> node option" where
  "node_declaration (ExportNamedDeclaration l d ss) = d"
| "node_declaration (ExportDefaultDeclaration l d) = Some d"
| "node_declaration _ = None"

section \<open>Errors and results\<close>

text \<open>
  What a call can raise: the parser's error, a \<open>TypeError\<close> from reading a property of
  \<open>null\<close> or \<open>undefined\<close>, an \<open>Error\<close> object with its message, or a bare string that a
  \<open>throw\<close> statement throws.
\<close>

datatype error = SyntaxError string | TypeError | Error string | Thrown string

record parameterDescriptor =
  name :: "string option"
  parent :: "string option"
  type :: "string option"
  defaultValue :: "jsvalue option"


section \<open>The parameter simplifier\<close>

definition DEFAULT_PARAM_NAME :: string where
  "DEFAULT_PARAM_NAME = ''Unknown''"

definition parseIdentifierParam :: "node \<Rightarrow> error + parameterDescriptor list" where
  "parseIdentifierParam param =
     Inr [\<lparr>name = node_name param, parent = None, type = None, defaultValue = None\<rparr>]"

text \<open>
  \<open>throw('Unknown param type: ', paramAssignmentType)\<close> throws the value of a comma
  expression, which is its last operand: the kind name itself, as a bare string.
\<close>

definition parseAssignmentParam :: "node \<Rightarrow> error + parameterDescriptor list" where
  "parseAssignmentParam param =
     (case node_right param of
        None \<Rightarrow> Inl TypeError
      | Some r \<Rightarrow>
          (let paramAssignmentType = node_type r in
           case
             (if paramAssignmentType = ''StringLiteral'' then Inr (''string'', node_value r)
              else if paramAssignmentType = ''NumericLiteral'' then Inr (''number'', node_value r)
              else if paramAssignmentType = ''ArrayExpression'' then Inr (''array'', Some (JString ''[]''))
              else if paramAssignmentType = ''ObjectExpression'' then Inr (''object'', Some (JString ''{}''))
              else Inl (Thrown paramAssignmentType))
           of
             Inl e \<Rightarrow> Inl e
           | Inr (ty, dv) \<Rightarrow>
               (case node_left param of
                  None \<Rightarrow> Inl TypeError
                | Some l \<Rightarrow>
                    Inr [\<lparr>name = node_name l, parent = None, type = Some ty,
                          defaultValue = dv\<rparr>])))"

definition parseRestParam :: "node \<Rightarrow> error + parameterDescriptor list" where
  "parseRestParam param =
     (case node_argument param of
        None \<Rightarrow> Inl TypeError
      | Some a \<Rightarrow>
          Inr [\<lparr>name = node_name a, parent = None, type = Some ''array'',
                defaultValue = None\<rparr>])"

lemma size_node_properties:
  "node_properties n = Some ps \<Longrightarrow> size_list size ps < size n"
  by (cases n) auto

lemma size_property_value:
  "property_value p = Some v \<Longrightarrow> size v < size p"
  by (cases p) auto

text \<open>
  The initial value of the \<open>reduce\<close> in \<open>parseDestructuredParam\<close>, and
  \<open>Object.assign({}, p, { parent })\<close>.
\<close>

definition syntheticParent :: parameterDescriptor where
  "syntheticParent =
     \<lparr>name = Some DEFAULT_PARAM_NAME, parent = None, type = Some ''object'',
      defaultValue = None\<rparr>"

definition assignParent :: "parameterDescriptor \<Rightarrow> parameterDescriptor" where
  "assignParent p = p\<lparr>parent := Some DEFAULT_PARAM_NAME\<rparr>"

text \<open>
  \<open>parseDestructuredParam\<close> reaches itself through the table \<open>PARAM_PARSERS\<close>. The
  recursion is written out here: \<open>applyParamParser v\<close> is \<open>getParamParser(v.type)(v)\<close>
  (lemma \<open>applyParamParser_getParamParser\<close> below), and \<open>reduceProperties\<close> is the
  \<open>reduce\<close> over the properties, with the accumulator \<open>params\<close>.
\<close>

function parseDestructuredParam :: "node \<Rightarrow> error + parameterDescriptor list"
  and reduceProperties ::
    "node list \<Rightarrow> parameterDescriptor list \<Rightarrow> error + parameterDescriptor list"
  and applyParamParser :: "node \<Rightarrow> error + parameterDescriptor list"
where
  "parseDestructuredParam param =
     (case node_properties param of
        None \<Rightarrow> Inl TypeError
      | Some props \<Rightarrow>
          reduceProperties props [syntheticParent])"
| "reduceProperties [] params = Inr params"
| "reduceProperties (prop # props) params =
     (case property_value prop of
        None \<Rightarrow> Inl TypeError
      | Some v \<Rightarrow>
          (case applyParamParser v of
             Inl e \<Rightarrow> Inl e
           | Inr newParams \<Rightarrow>
               reduceProperties props (params @ map assignParent newParams)))"
| "applyParamParser v =
     (if node_type v = ''Identifier'' then parseIdentifierParam v
      else if node_type v = ''AssignmentPattern'' then parseAssignmentParam v
      else if node_type v = ''RestElement'' then parseRestParam v
      else if node_type v = ''ObjectPattern'' then parseDestructuredParam v
      else Inl (Error (''Unknown param type: '' @ node_type v)))"
  by pat_completeness auto
termination
  by (relation "measure (\<lambda>x. case x of
          Inl param \<Rightarrow> 2 * size param
        | Inr (Inl (props, params)) \<Rightarrow> 2 * size_list size props + 1
        | Inr (Inr v) \<Rightarrow> 2 * size v + 1)")
    (auto dest: size_node_properties size_property_value)

declare parseDestructuredParam.simps [simp del]
declare applyParamParser.simps [simp del]

definition PARAM_PARSERS ::
  "string \<rightharpoonup> (node \<Rightarrow> error + parameterDescriptor list)" where
  "PARAM_PARSERS =
     [''Identifier'' \<mapsto> parseIdentifierParam,
      ''AssignmentPattern'' \<mapsto> parseAssignmentParam,
      ''RestElement'' \<mapsto> parseRestParam,
      ''ObjectPattern'' \<mapsto> parseDestructuredParam]"

definition getParamParser ::
  "string \<Rightarrow> error + (node \<Rightarrow> error + parameterDescriptor list)" where
  "getParamParser paramType =
     (case PARAM_PARSERS paramType of
        None \<Rightarrow> Inl (Error (''Unknown param type: '' @ paramType))
      | Some pp \<Rightarrow> Inr pp)"

text \<open>The \<open>reduce\<close> of \<open>simplifyParams\<close>, with the accumulator \<open>col\<close>.\<close>

fun reduceParams ::
  "node list \<Rightarrow> parameterDescriptor list \<Rightarrow> error + parameterDescriptor list" where
  "reduceParams [] col = Inr col"
| "reduceParams (param # params) col =
     (case getParamParser (node_type param) of
        Inl e \<Rightarrow> Inl e
      | Inr pp \<Rightarrow>
          (case pp param of
             Inl e \<Rightarrow> Inl e
           | Inr ds \<Rightarrow> reduceParams params (col @ ds)))"

definition simplifyParams :: "node list \<Rightarrow> error + parameterDescriptor list" where
  "simplifyParams params = reduceParams params []"

text \<open>
  The descriptors that one property of a destructured parameter contributes, before the
  parent is assigned: \<open>pp(value)\<close> in \<open>parseDestructuredParam\<close>.
\<close>

definition propertyParams :: "node \<Rightarrow> error + parameterDescriptor list" where
  "propertyParams prop =
     (case property_value prop of None \<Rightarrow> Inl TypeError | Some v \<Rightarrow> applyParamParser v)"

text \<open>\<open>typeof v === 'string'\<close>.\<close>

fun isString :: "jsvalue \<Rightarrow> bool" where
  "isString (JString s) = True"
| "isString (JNumber x) = False"

text \<open>
  The parameter nodes of a parameter: the parameter itself and, for an object pattern,
  the parameter nodes of the values of its properties.
\<close>

lemma size_nested_value:
  "node_properties p = Some props \<Longrightarrow> q \<in> set props \<Longrightarrow> property_value q = Some v \<Longrightarrow>
     size v < size p"
  using size_node_properties [of p props] size_list_estimation' [of q props "size q" size]
    size_property_value [of q v]
  by simp

function paramNodes :: "node \<Rightarrow> node list" where
  "paramNodes p =
     p # (if node_type p = ''ObjectPattern'' then
            (case node_properties p of
               None \<Rightarrow> []
             | Some props \<Rightarrow>
                 concat (map (\<lambda>q. case property_value q of
                                     None \<Rightarrow> []
                                   | Some v \<Rightarrow> paramNodes v) props))
          else [])"
  by pat_completeness auto
termination
  by (relation "measure size") (auto dest: size_nested_value)

declare paramNodes.simps [simp del]

text \<open>
  \<open>rendersDefault r d v\<close>: the type of the descriptor \<open>d\<close> and the default value \<open>v\<close> are
  those of the default expression \<open>r\<close>: the number of a numeric literal, the string of a
  string literal, \<open>[]\<close> for an array literal and \<open>{}\<close> for an object literal.
  \<open>defaultOrigin ns d\<close>: a default value of \<open>d\<close> is that of a defaulted parameter among
  \<open>ns\<close> with the name of \<open>d\<close>.
\<close>

definition rendersDefault :: "node \<Rightarrow> parameterDescriptor \<Rightarrow> jsvalue \<Rightarrow> bool" where
  "rendersDefault r d v =
     ((\<exists>lr x. r = NumericLiteral lr x \<and> type d = Some ''number'' \<and> v = JNumber x)
      \<or> (\<exists>lr s. r = StringLiteral lr s \<and> type d = Some ''string'' \<and> v = JString s)
      \<or> (node_type r = ''ArrayExpression'' \<and> type d = Some ''array'' \<and> v = JString ''[]'')
      \<or> (node_type r = ''ObjectExpression'' \<and> type d = Some ''object'' \<and> v = JString ''{}''))"

definition defaultOrigin :: "node list \<Rightarrow> parameterDescriptor \<Rightarrow> bool" where
  "defaultOrigin ns d =
     (\<forall>v. defaultValue d = Some v \<longrightarrow>
        (\<exists>p \<in> set ns. \<exists>lhs r. node_type p = ''AssignmentPattern'' \<and> node_left p = Some lhs
           \<and> node_right p = Some r \<and> name d = node_name lhs \<and> rendersDefault r d v))"

section \<open>The traversal\<close>

text \<open>
  A node is an object, and the program compares two of them by identity
  (\<open>exported.declaration === node\<close>). In a tree an object is identified by the place where
  it hangs: the keys, from the root down, under which it is stored. A key is a property name
  and, for a property that holds an array, the index into it.
\<close>

type_synonym ref = "(string \<times> nat) list"

definition one :: "string \<Rightarrow> node \<Rightarrow> ((string \<times> nat) \<times> node) list" where
  "one k n = [((k, 0), n)]"

definition opt :: "string \<Rightarrow> node option \<Rightarrow> ((string \<times> nat) \<times> node) list" where
  "opt k x = (case x of None \<Rightarrow> [] | Some n \<Rightarrow> [((k, 0), n)])"

definition many :: "string \<Rightarrow> node list \<Rightarrow> ((string \<times> nat) \<times> node) list" where
  "many k ns = map (\<lambda>(i, n). ((k, i), n)) (enumerate 0 ns)"

text \<open>The child nodes that the traversal walks, each with its key, in the order of the walk.\<close>

fun children :: "node \<Rightarrow> ((string \<times> nat) \<times> node) list" where
  "children (Identifier l s) = []"
| "children (StringLiteral l s) = []"
| "children (NumericLiteral l v) = []"
| "children (ArrayExpression l es) = many ''elements'' es"
| "children (ObjectExpression l ps) = many ''properties'' ps"
| "children (ObjectProperty l k v) = one ''key'' k @ one ''value'' v"
| "children (FunctionExpression l i ps b) = opt ''id'' i @ many ''params'' ps @ one ''body'' b"
| "children (ArrowFunctionExpression l ps b) = many ''params'' ps @ one ''body'' b"
| "children (FunctionDeclaration l i ps b) = opt ''id'' i @ many ''params'' ps @ one ''body'' b"
| "children (VariableDeclaration l ds) = many ''declarations'' ds"
| "children (VariableDeclarator l i e) = one ''id'' i @ opt ''init'' e"
| "children (ExportNamedDeclaration l d ss) = opt ''declaration'' d @ many ''specifiers'' ss"
| "children (ExportDefaultDeclaration l d) = one ''declaration'' d"
| "children (AssignmentExpression l a b) = one ''left'' a @ one ''right'' b"
| "children (MemberExpression l ob p) = one ''object'' ob @ one ''property'' p"
| "children (AssignmentPattern l a b) = one ''left'' a @ one ''right'' b"
| "children (RestElement l a) = one ''argument'' a"
| "children (ObjectPattern l ps) = many ''properties'' ps"
| "children (Other t l cs) = many ''children'' cs"

lemma size_many: "(k, c) \<in> set (many key ns) \<Longrightarrow> size c < Suc (size_list size ns)"
  by (auto simp: many_def in_set_enumerate_eq less_Suc_eq_le
      intro: size_list_estimation'[OF nth_mem])

lemma size_children: "(k, c) \<in> set (children n) \<Longrightarrow> size c < size n"
  by (cases n) (auto simp: one_def opt_def split: option.splits dest!: size_many)

text \<open>The nodes below and including \<open>n\<close>, which hangs at \<open>r\<close>, in pre-order.\<close>

function preorder :: "ref \<Rightarrow> node \<Rightarrow> (ref \<times> node) list" where
  "preorder r n = (r, n) # concat (map (\<lambda>(k, c). preorder (r @ [k]) c) (children n))"
  by pat_completeness auto
termination
  by (relation "measure (\<lambda>(r, n). size n)") (auto dest: size_children)

declare preorder.simps [simp del]

text \<open>
  The visitor is called on every node in turn, with the state the previous call left; the
  first error ends the traversal.
\<close>

fun visitAll ::
  "(ref \<Rightarrow> node \<Rightarrow> 's \<Rightarrow> error + 's) \<Rightarrow> (ref \<times> node) list \<Rightarrow> 's \<Rightarrow> error + 's" where
  "visitAll visitor [] s = Inr s"
| "visitAll visitor ((r, n) # rest) s =
     (case visitor r n s of Inl e \<Rightarrow> Inl e | Inr s' \<Rightarrow> visitAll visitor rest s')"

text \<open>
  \<open>traverse\<close> walks the nodes below the root; the root itself is not visited. Before it
  calls a visitor, the library registers the bindings of every scope and raises a
  \<open>TypeError\<close> when a name is declared twice by \<open>let\<close> or \<open>const\<close> in one scope, which the
  parser accepts. That registration is left out here: the results below are those for
  trees without such a redeclaration.
\<close>

definition visited :: "node \<Rightarrow> (ref \<times> node) list" where
  "visited ast = concat (map (\<lambda>(k, c). preorder [k] c) (children ast))"

definition traverse ::
  "node \<Rightarrow> (ref \<Rightarrow> node \<Rightarrow> 's \<Rightarrow> error + 's) \<Rightarrow> 's \<Rightarrow> error + 's" where
  "traverse ast visitor s = visitAll visitor (visited ast) s"

section \<open>The function locator\<close>

definition onLine :: "node \<Rightarrow> int \<Rightarrow> bool" where
  "onLine n lineNum =
     (let startLine = line (start (node_loc n))
      in startLine = lineNum \<or> startLine - 1 = lineNum)"

text \<open>
  The function node that \<open>getNode\<close> returns, as the rest of the program reads it: its \<open>id\<close>
  (\<open>null\<close>, or an object of which only \<open>name\<close> is read), its \<open>loc\<close> and its \<open>params\<close>, with
  the values \<open>getNode\<close> has written into \<open>loc\<close> and \<open>id\<close>.
\<close>

datatype idObject = IdObject (id_name: "string option")

record functionNode =
  fn_id :: "idObject option"
  fn_loc :: sourceLocation
  fn_params :: "node list option"

text \<open>The two variables of \<open>getNode\<close> that the visitors close over.\<close>

record searchState =
  node :: "functionNode option"
  exported :: "(ref \<times> node) option"

text \<open>
  The visitors write \<open>loc\<close> and \<open>id\<close> of the node they select. No later visitor reads what
  was written: \<open>onLine\<close> reads the \<open>loc\<close> of the visited node before its visitor writes
  it, the \<open>loc\<close> of an export statement or of a variable declaration is never written, and
  function expressions have no visitor. So the traversal visits the nodes of the tree as
  parsed, and the state holds the selected node with the values written into it.

  \<open>declarationRef (er, e)\<close> is the place of \<open>e.declaration\<close> for the node \<open>e\<close> at \<open>er\<close>, if
  \<open>e\<close> has one; \<open>exported.declaration === node\<close> holds when it is the place of \<open>node\<close>.
\<close>

definition declarationRef :: "ref \<times> node \<Rightarrow> ref option" where
  "declarationRef ex =
     (case ex of
        (er, e) \<Rightarrow>
          (case node_declaration e of
             None \<Rightarrow> None
           | Some d \<Rightarrow> Some (er @ [(''declaration'', 0)])))"

definition visitFunctionDeclaration ::
  "int \<Rightarrow> ref \<Rightarrow> node \<Rightarrow> searchState \<Rightarrow> error + searchState" where
  "visitFunctionDeclaration lineNum r n s =
     (if onLine n lineNum then
        Inr (s\<lparr>node := Some
          \<lparr>fn_id = map_option (\<lambda>i. IdObject (node_name i)) (node_id n),
           fn_loc =
             (case exported s of
                None \<Rightarrow> node_loc n
              | Some (er, e) \<Rightarrow>
                  if declarationRef (er, e) = Some r then node_loc e else node_loc n),
           fn_params = node_params n\<rparr>\<rparr>)
      else Inr s)"

definition visitVariableDeclaration ::
  "int \<Rightarrow> node \<Rightarrow> searchState \<Rightarrow> error + searchState" where
  "visitVariableDeclaration lineNum n s =
     (case node_declarations n of
        None \<Rightarrow> Inl TypeError
      | Some ds \<Rightarrow>
          (if onLine n lineNum then
             (case ds of
                [] \<Rightarrow> Inl TypeError
              | declarator # _ \<Rightarrow>
                  (if node_type declarator = ''VariableDeclarator'' then
                     (case node_init declarator of
                        None \<Rightarrow> Inl TypeError
                      | Some declaredNode \<Rightarrow>
                          (if node_type declaredNode = ''FunctionExpression'' then
                             (case node_id declarator of
                                None \<Rightarrow> Inl TypeError
                              | Some i \<Rightarrow>
                                  Inr (s\<lparr>node := Some
                                    \<lparr>fn_id = Some (IdObject (node_name i)),
                                     fn_loc = node_loc n,
                                     fn_params = node_params declaredNode\<rparr>\<rparr>))
                           else Inr s))
                   else Inr s))
           else Inr s))"

definition visitExportDeclaration :: "ref \<Rightarrow> node \<Rightarrow> searchState \<Rightarrow> error + searchState" where
  "visitExportDeclaration r n s = Inr (s\<lparr>exported := Some (r, n)\<rparr>)"

definition visitAssignmentExpression ::
  "int \<Rightarrow> node \<Rightarrow> searchState \<Rightarrow> error + searchState" where
  "visitAssignmentExpression lineNum n s =
     (if onLine n lineNum then
        (case node_left n of
           None \<Rightarrow> Inl TypeError
         | Some lhs \<Rightarrow>
             (if node_type lhs = ''MemberExpression'' then
                (case node_right n of
                   None \<Rightarrow> Inl TypeError
                 | Some rhs \<Rightarrow>
                     (if node_type rhs = ''FunctionExpression'' then
                        (case node_property lhs of
                           None \<Rightarrow> Inl TypeError
                         | Some p \<Rightarrow>
                             Inr (s\<lparr>node := Some
                               \<lparr>fn_id = Some (IdObject (node_name p)),
                                fn_loc = node_loc n,
                                fn_params = node_params rhs\<rparr>\<rparr>))
                      else Inr s))
              else Inr s))
      else Inr s)"

text \<open>The visitor object: the callback is chosen by the kind of the node.\<close>

definition visitors :: "int \<Rightarrow> ref \<Rightarrow> node \<Rightarrow> searchState \<Rightarrow> error + searchState" where
  "visitors lineNum r n s =
     (if node_type n = ''FunctionDeclaration'' then visitFunctionDeclaration lineNum r n s
      else if node_type n = ''VariableDeclaration'' then visitVariableDeclaration lineNum n s
      else if node_type n = ''ExportNamedDeclaration''
            \<or> node_type n = ''ExportDefaultDeclaration'' then visitExportDeclaration r n s
      else if node_type n = ''AssignmentExpression'' then visitAssignmentExpression lineNum n s
      else Inr s)"

definition getNode :: "node \<Rightarrow> int \<Rightarrow> error + functionNode option" where
  "getNode ast lineNum =
     (case traverse ast (visitors lineNum) \<lparr>node = None, exported = None\<rparr> of
        Inl e \<Rightarrow> Inl e
      | Inr s \<Rightarrow> Inr (node s))"

text \<open>
  The condition under which a visitor assigns \<open>node\<close>: the visited node starts on the
  target line or the line below and is a function declaration, a variable declaration
  whose first declarator is initialised with a function expression, or an assignment of a
  function expression to a member expression.
\<close>

definition matches :: "int \<Rightarrow> node \<Rightarrow> bool" where
  "matches lineNum n =
     (onLine n lineNum \<and>
      (node_type n = ''FunctionDeclaration''
       \<or> (node_type n = ''VariableDeclaration'' \<and>
           (case node_declarations n of
              Some (declarator # ds) \<Rightarrow>
                node_type declarator = ''VariableDeclarator'' \<and>
                (case node_init declarator of
                   Some declaredNode \<Rightarrow> node_type declaredNode = ''FunctionExpression''
                 | None \<Rightarrow> False)
            | _ \<Rightarrow> False))
       \<or> (node_type n = ''AssignmentExpression'' \<and>
           (case node_left n of
              Some lhs \<Rightarrow> node_type lhs = ''MemberExpression''
            | None \<Rightarrow> False) \<and>
           (case node_right n of
              Some rhs \<Rightarrow> node_type rhs = ''FunctionExpression''
            | None \<Rightarrow> False))))"

section \<open>The location mapper and the orchestrator\<close>

definition simplifyLocation :: "sourceLocation \<Rightarrow> position" where
  "simplifyLocation location =
     \<lparr>line = max (line (start location) - 1) 1, column = column (start location)\<rparr>"

record returnsDescriptor =
  returns :: bool

record functionDescriptor =
  fname :: "string option"
  location :: position
  params :: "parameterDescriptor list"
  freturns :: returnsDescriptor

definition simplifyNode :: "functionNode \<Rightarrow> error + functionDescriptor" where
  "simplifyNode fn =
     (case fn_id fn of
        None \<Rightarrow> Inl TypeError
      | Some i \<Rightarrow>
          (case fn_params fn of
             None \<Rightarrow> Inl TypeError
           | Some ps \<Rightarrow>
               (case simplifyParams ps of
                  Inl e \<Rightarrow> Inl e
                | Inr ds \<Rightarrow>
                    Inr \<lparr>fname = id_name i, location = simplifyLocation (fn_loc fn),
                         params = ds, freturns = \<lparr>returns = False\<rparr>\<rparr>)))"

text \<open>The parser is a library; \<open>getAST\<close> and \<open>parse\<close> take it as the parameter \<open>parser\<close>.\<close>

definition getAST :: "(string \<Rightarrow> error + node) \<Rightarrow> string \<Rightarrow> error + node" where
  "getAST parser code = parser code"

definition parse ::
  "(string \<Rightarrow> error + node) \<Rightarrow> string \<Rightarrow> int option \<Rightarrow> error + functionDescriptor option" where
  "parse parser code lineNumArg =
     (let lineNum = (case lineNumArg of None \<Rightarrow> 1 | Some l \<Rightarrow> l) in
      case getAST parser code of
        Inl e \<Rightarrow> Inl e
      | Inr ast \<Rightarrow>
          (case getNode ast lineNum of
             Inl e \<Rightarrow> Inl e
           | Inr None \<Rightarrow> Inr None
           | Inr (Some fn) \<Rightarrow>
               (case simplifyNode fn of Inl e \<Rightarrow> Inl e | Inr simplified \<Rightarrow> Inr (Some simplified))))"

section \<open>Concrete programs\<close>

text \<open>
  The trees below are what the parser returns for the source texts quoted with them.
  \<open>span l c l' c'\<close> is the location from line \<open>l\<close>, column \<open>c\<close> to line \<open>l'\<close>, column \<open>c'\<close>.
\<close>

definition span :: "int \<Rightarrow> int \<Rightarrow> int \<Rightarrow> int \<Rightarrow> sourceLocation" where
  "span l c l' c' =
     \<lparr>start = \<lparr>line = l, column = c\<rparr>, finish = \<lparr>line = l', column = c'\<rparr>\<rparr>"

text \<open>\<^verbatim>\<open>var x;\<close>\<close>

definition ast_uninitialised_var :: node where
  "ast_uninitialised_var =
     Other ''File'' (span 1 0 1 6)
       [Other ''Program'' (span 1 0 1 6)
          [VariableDeclaration (span 1 0 1 6)
             [VariableDeclarator (span 1 4 1 5) (Identifier (span 1 4 1 5) ''x'') None]]]"

text \<open>
  Three lines: \<^verbatim>\<open>function f() {\<close>, then \<^verbatim>\<open>  var x;\<close>, then \<^verbatim>\<open>}\<close>.
\<close>

definition ast_function_with_var :: node where
  "ast_function_with_var =
     Other ''File'' (span 1 0 3 1)
       [Other ''Program'' (span 1 0 3 1)
          [FunctionDeclaration (span 1 0 3 1) (Some (Identifier (span 1 9 1 10) ''f'')) []
             (Other ''BlockStatement'' (span 1 13 3 1)
                [VariableDeclaration (span 2 2 2 8)
                   [VariableDeclarator (span 2 6 2 7) (Identifier (span 2 6 2 7) ''x'')
                      None]])]]"

text \<open>
  Three lines: \<^verbatim>\<open>const f = () => {\<close>, then \<^verbatim>\<open>  let x;\<close>, then \<^verbatim>\<open>};\<close>.
\<close>

definition ast_arrow_with_let :: node where
  "ast_arrow_with_let =
     Other ''File'' (span 1 0 3 2)
       [Other ''Program'' (span 1 0 3 2)
          [VariableDeclaration (span 1 0 3 2)
             [VariableDeclarator (span 1 6 3 1) (Identifier (span 1 6 1 7) ''f'')
                (Some (ArrowFunctionExpression (span 1 10 3 1) []
                   (Other ''BlockStatement'' (span 1 16 3 1)
                      [VariableDeclaration (span 2 2 2 8)
                         [VariableDeclarator (span 2 6 2 7) (Identifier (span 2 6 2 7) ''x'')
                            None]])))]]]"

text \<open>\<^verbatim>\<open>export const f = function () {};\<close>\<close>

definition ast_export_const :: node where
  "ast_export_const =
     Other ''File'' (span 1 0 1 32)
       [Other ''Program'' (span 1 0 1 32)
          [ExportNamedDeclaration (span 1 0 1 32)
             (Some (VariableDeclaration (span 1 7 1 32)
                [VariableDeclarator (span 1 13 1 31) (Identifier (span 1 13 1 14) ''f'')
                   (Some (FunctionExpression (span 1 17 1 31) None []
                      (Other ''BlockStatement'' (span 1 29 1 31) [])))]))
             []]]"

text \<open>\<^verbatim>\<open>export function f() {}\<close>\<close>

definition ast_export_function :: node where
  "ast_export_function =
     Other ''File'' (span 1 0 1 22)
       [Other ''Program'' (span 1 0 1 22)
          [ExportNamedDeclaration (span 1 0 1 22)
             (Some (FunctionDeclaration (span 1 7 1 22) (Some (Identifier (span 1 16 1 17) ''f''))
                [] (Other ''BlockStatement'' (span 1 20 1 22) [])))
             []]]"

text \<open>\<^verbatim>\<open>function f(a = 1) {}\<close>\<close>

definition ast_numeric_default :: node where
  "ast_numeric_default =
     Other ''File'' (span 1 0 1 20)
       [Other ''Program'' (span 1 0 1 20)
          [FunctionDeclaration (span 1 0 1 20) (Some (Identifier (span 1 9 1 10) ''f''))
             [AssignmentPattern (span 1 11 1 16) (Identifier (span 1 11 1 12) ''a'')
                (NumericLiteral (span 1 15 1 16) 1)]
             (Other ''BlockStatement'' (span 1 18 1 20) [])]]"

text \<open>The parameter of \<^verbatim>\<open>function f({a: {b}}) {}\<close>.\<close>

definition param_nested_pattern :: node where
  "param_nested_pattern =
     ObjectPattern (span 1 11 1 19)
       [ObjectProperty (span 1 12 1 18) (Identifier (span 1 12 1 13) ''a'')
          (ObjectPattern (span 1 15 1 18)
             [ObjectProperty (span 1 16 1 17) (Identifier (span 1 16 1 17) ''b'')
                (Identifier (span 1 16 1 17) ''b'')])]"


text \<open>Two empty lines, then \<^verbatim>\<open>function f(a, b) {}\<close> on line 3.\<close>

definition ast_third_line :: node where
  "ast_third_line =
     Other ''File'' (span 1 0 3 19)
       [Other ''Program'' (span 1 0 3 19)
          [FunctionDeclaration (span 3 0 3 19) (Some (Identifier (span 3 9 3 10) ''f''))
             [Identifier (span 3 11 3 12) ''a'', Identifier (span 3 14 3 15) ''b'']
             (Other ''BlockStatement'' (span 3 17 3 19) [])]]"

text \<open>The parameters of \<^verbatim>\<open>function f(a, [b]) {}\<close>.\<close>

definition param_a :: node where
  "param_a = Identifier (span 1 11 1 12) ''a''"

definition param_array_pattern :: node where
  "param_array_pattern =
     Other ''ArrayPattern'' (span 1 14 1 17) [Identifier (span 1 15 1 16) ''b'']"

text \<open>The parameters of \<^verbatim>\<open>function f({x, y = 1}, z) {}\<close>.\<close>

definition param_x_y :: "node list" where
  "param_x_y =
     [ObjectProperty (span 1 12 1 13) (Identifier (span 1 12 1 13) ''x'')
        (Identifier (span 1 12 1 13) ''x''),
      ObjectProperty (span 1 15 1 20) (Identifier (span 1 15 1 16) ''y'')
        (AssignmentPattern (span 1 15 1 20) (Identifier (span 1 15 1 16) ''y'')
           (NumericLiteral (span 1 19 1 20) 1))]"

definition param_z :: node where
  "param_z = Identifier (span 1 23 1 24) ''z''"

text \<open>\<^verbatim>\<open>function f(a, [b]) {}\<close>\<close>

definition ast_array_pattern_param :: node where
  "ast_array_pattern_param =
     Other ''File'' (span 1 0 1 21)
       [Other ''Program'' (span 1 0 1 21)
          [FunctionDeclaration (span 1 0 1 21) (Some (Identifier (span 1 9 1 10) ''f''))
             [param_a, param_array_pattern]
             (Other ''BlockStatement'' (span 1 19 1 21) [])]]"

text \<open>\<^verbatim>\<open>export default function ([b]) {}\<close>\<close>

definition ast_anonymous_default_export :: node where
  "ast_anonymous_default_export =
     Other ''File'' (span 1 0 1 32)
       [Other ''Program'' (span 1 0 1 32)
          [ExportDefaultDeclaration (span 1 0 1 32)
             (FunctionDeclaration (span 1 15 1 32) None
                [Other ''ArrayPattern'' (span 1 25 1 28) [Identifier (span 1 26 1 27) ''b'']]
                (Other ''BlockStatement'' (span 1 30 1 32) []))]]"

text \<open>The property \<^verbatim>\<open>c = g()\<close> of an object pattern.\<close>

definition property_default_call :: node where
  "property_default_call =
     ObjectProperty (span 1 20 1 27) (Identifier (span 1 20 1 21) ''c'')
       (AssignmentPattern (span 1 20 1 27) (Identifier (span 1 20 1 21) ''c'')
          (Other ''CallExpression'' (span 1 24 1 27) [Identifier (span 1 24 1 25) ''g'']))"

text \<open>\<^verbatim>\<open>function f({x, y = 1}, z) {}\<close>\<close>

definition ast_destructured :: node where
  "ast_destructured =
     Other ''File'' (span 1 0 1 28)
       [Other ''Program'' (span 1 0 1 28)
          [FunctionDeclaration (span 1 0 1 28) (Some (Identifier (span 1 9 1 10) ''f''))
             [ObjectPattern (span 1 11 1 21) param_x_y, param_z]
             (Other ''BlockStatement'' (span 1 26 1 28) [])]]"

text \<open>\<^verbatim>\<open>function f(a = g()) {}\<close>\<close>

definition ast_call_default :: node where
  "ast_call_default =
     Other ''File'' (span 1 0 1 22)
       [Other ''Program'' (span 1 0 1 22)
          [FunctionDeclaration (span 1 0 1 22) (Some (Identifier (span 1 9 1 10) ''f''))
             [AssignmentPattern (span 1 11 1 18) (Identifier (span 1 11 1 12) ''a'')
                (Other ''CallExpression'' (span 1 15 1 18) [Identifier (span 1 15 1 16) ''g''])]
             (Other ''BlockStatement'' (span 1 20 1 22) [])]]"

section \<open>Properties of the parameter simplifier\<close>

lemma applyParamParser_getParamParser:
  "applyParamParser v =
     (case getParamParser (node_type v) of Inl e \<Rightarrow> Inl e | Inr pp \<Rightarrow> pp v)"
  by (simp add: applyParamParser.simps getParamParser_def PARAM_PARSERS_def)

lemma reduceParams_Cons:
  "reduceParams (param # rest) col =
     (case applyParamParser param of
        Inl e \<Rightarrow> Inl e
      | Inr ds \<Rightarrow> reduceParams rest (col @ ds))"
  by (simp add: applyParamParser_getParamParser split: sum.splits)

lemma reduceParams_append:
  "reduceParams (xs @ ys) col =
     (case reduceParams xs col of Inl e \<Rightarrow> Inl e | Inr col' \<Rightarrow> reduceParams ys col')"
proof (induction xs arbitrary: col)
  case Nil
  show ?case by simp
next
  case (Cons x xs)
  show ?case
    by (cases "applyParamParser x") (simp_all only: append_Cons reduceParams_Cons Cons.IH sum.case)
qed

lemma reduceParams_Inr_iff:
  "reduceParams ps col = Inr ds \<longleftrightarrow>
     (\<exists>dss. map applyParamParser ps = map Inr dss \<and> ds = col @ concat dss)"
proof (induction ps arbitrary: col)
  case Nil
  show ?case by auto
next
  case (Cons p ps)
  show ?case
  proof (cases "applyParamParser p")
    case (Inl e)
    then show ?thesis
      by (auto simp only: reduceParams_Cons sum.case list.map map_eq_Cons_conv)
  next
    case (Inr new)
    have "reduceParams (p # ps) col = Inr ds \<longleftrightarrow>
        (\<exists>dss. map applyParamParser ps = map Inr dss \<and> ds = (col @ new) @ concat dss)"
      using Cons.IH [of "col @ new"] Inr by (simp only: reduceParams_Cons sum.case)
    also have "\<dots> \<longleftrightarrow>
        (\<exists>dss. map applyParamParser (p # ps) = map Inr dss \<and> ds = col @ concat dss)"
    proof
      assume "\<exists>dss. map applyParamParser ps = map Inr dss \<and> ds = (col @ new) @ concat dss"
      then obtain dss where "map applyParamParser ps = map Inr dss"
        and "ds = (col @ new) @ concat dss" by blast
      then have "map applyParamParser (p # ps) = map Inr (new # dss)
          \<and> ds = col @ concat (new # dss)"
        using Inr by simp
      then show "\<exists>dss. map applyParamParser (p # ps) = map Inr dss \<and> ds = col @ concat dss"
        by blast
    next
      assume "\<exists>dss. map applyParamParser (p # ps) = map Inr dss \<and> ds = col @ concat dss"
      then obtain dss where m: "map applyParamParser (p # ps) = map Inr dss"
        and d: "ds = col @ concat dss" by blast
      from m obtain d0 dss' where "dss = d0 # dss'" by (cases dss) auto
      with m d Inr have "map applyParamParser ps = map Inr dss'
          \<and> ds = (col @ new) @ concat dss'"
        by simp
      then show "\<exists>dss. map applyParamParser ps = map Inr dss \<and> ds = (col @ new) @ concat dss"
        by blast
    qed
    finally show ?thesis .
  qed
qed

lemma reduceProperties_Cons:
  "reduceProperties (prop # props) acc =
     (case propertyParams prop of
        Inl e \<Rightarrow> Inl e
      | Inr newParams \<Rightarrow> reduceProperties props (acc @ map assignParent newParams))"
  by (simp add: propertyParams_def split: option.splits)

lemma reduceProperties_append:
  "reduceProperties (xs @ ys) acc =
     (case reduceProperties xs acc of
        Inl e \<Rightarrow> Inl e
      | Inr acc' \<Rightarrow> reduceProperties ys acc')"
proof (induction xs arbitrary: acc)
  case Nil
  show ?case by simp
next
  case (Cons x xs)
  show ?case
    by (cases "propertyParams x")
      (simp_all only: append_Cons reduceProperties_Cons Cons.IH sum.case)
qed

lemma reduceProperties_Inr_iff:
  "reduceProperties props acc = Inr ds \<longleftrightarrow>
     (\<exists>dss. map propertyParams props = map Inr dss
        \<and> ds = acc @ concat (map (map assignParent) dss))"
proof (induction props arbitrary: acc)
  case Nil
  show ?case by auto
next
  case (Cons p ps)
  show ?case
  proof (cases "propertyParams p")
    case (Inl e)
    then show ?thesis
      by (auto simp only: reduceProperties_Cons sum.case list.map map_eq_Cons_conv)
  next
    case (Inr new)
    let ?new = "map assignParent new"
    have "reduceProperties (p # ps) acc = Inr ds \<longleftrightarrow>
        (\<exists>dss. map propertyParams ps = map Inr dss
           \<and> ds = (acc @ ?new) @ concat (map (map assignParent) dss))"
      using Cons.IH [of "acc @ ?new"] Inr by (simp only: reduceProperties_Cons sum.case)
    also have "\<dots> \<longleftrightarrow>
        (\<exists>dss. map propertyParams (p # ps) = map Inr dss
           \<and> ds = acc @ concat (map (map assignParent) dss))"
    proof
      assume "\<exists>dss. map propertyParams ps = map Inr dss
          \<and> ds = (acc @ ?new) @ concat (map (map assignParent) dss)"
      then obtain dss where "map propertyParams ps = map Inr dss"
        and "ds = (acc @ ?new) @ concat (map (map assignParent) dss)" by blast
      then have "map propertyParams (p # ps) = map Inr (new # dss)
          \<and> ds = acc @ concat (map (map assignParent) (new # dss))"
        using Inr by simp
      then show "\<exists>dss. map propertyParams (p # ps) = map Inr dss
          \<and> ds = acc @ concat (map (map assignParent) dss)"
        by blast
    next
      assume "\<exists>dss. map propertyParams (p # ps) = map Inr dss
          \<and> ds = acc @ concat (map (map assignParent) dss)"
      then obtain dss where m: "map propertyParams (p # ps) = map Inr dss"
        and d: "ds = acc @ concat (map (map assignParent) dss)" by blast
      from m obtain d0 dss' where "dss = d0 # dss'" by (cases dss) auto
      with m d Inr have "map propertyParams ps = map Inr dss'
          \<and> ds = (acc @ ?new) @ concat (map (map assignParent) dss')"
        by simp
      then show "\<exists>dss. map propertyParams ps = map Inr dss
          \<and> ds = (acc @ ?new) @ concat (map (map assignParent) dss)"
        by blast
    qed
    finally show ?thesis .
  qed
qed

lemma simplifyParams_Inr_each:
  assumes "simplifyParams ps = Inr ds" and "p \<in> set ps"
  shows "\<exists>new. applyParamParser p = Inr new"
proof -
  from assms(1) obtain dss where m: "map applyParamParser ps = map Inr dss"
    by (auto simp: simplifyParams_def reduceParams_Inr_iff)
  from assms(2) obtain k where k: "k < length ps" and p: "p = ps ! k"
    by (auto simp: in_set_conv_nth)
  from m have "length dss = length ps"
    by (metis length_map)
  with m k p have "applyParamParser p = Inr (dss ! k)"
    by (metis nth_map)
  then show ?thesis by blast
qed

lemma parseDestructuredParam_ObjectPattern:
  "parseDestructuredParam (ObjectPattern l props) = reduceProperties props [syntheticParent]"
  by (simp add: parseDestructuredParam.simps)

lemma propertyParams_ObjectProperty:
  "propertyParams (ObjectProperty l k v) = applyParamParser v"
  by (simp add: propertyParams_def)

lemma applyParamParser_ObjectPattern:
  "applyParamParser (ObjectPattern l props) = parseDestructuredParam (ObjectPattern l props)"
  by (simp add: applyParamParser.simps)

lemma applyParamParser_unknown:
  "node_type v \<notin> {''Identifier'', ''AssignmentPattern'', ''RestElement'', ''ObjectPattern''}
   \<Longrightarrow> applyParamParser v = Inl (Error (''Unknown param type: '' @ node_type v))"
  by (simp add: applyParamParser.simps)

lemma parseAssignmentParam_unknown:
  "node_type dflt \<notin> {''StringLiteral'', ''NumericLiteral'', ''ArrayExpression'',
      ''ObjectExpression''}
   \<Longrightarrow> parseAssignmentParam (AssignmentPattern l lhs dflt) = Inl (Thrown (node_type dflt))"
  by (simp add: parseAssignmentParam_def)


lemma reduceProperties_Inl:
  "reduceProperties props acc = Inl e \<Longrightarrow>
     \<exists>pre p post dss. props = pre @ p # post \<and> map propertyParams pre = map Inr dss
       \<and> propertyParams p = Inl e"
proof (induction props arbitrary: acc)
  case Nil
  then show ?case by simp
next
  case (Cons q qs)
  show ?case
  proof (cases "propertyParams q")
    case (Inl e')
    with Cons.prems have "e' = e"
      by (simp only: reduceProperties_Cons sum.case sum.inject)
    with Inl have "q # qs = [] @ q # qs \<and> map propertyParams [] = map Inr []
        \<and> propertyParams q = Inl e"
      by simp
    then show ?thesis by blast
  next
    case (Inr new)
    with Cons.prems have "reduceProperties qs (acc @ map assignParent new) = Inl e"
      by (simp only: reduceProperties_Cons sum.case)
    from Cons.IH [OF this] obtain pre p post dss where "qs = pre @ p # post"
      and "map propertyParams pre = map Inr dss" and "propertyParams p = Inl e"
      by blast
    with Inr have "q # qs = (q # pre) @ p # post
        \<and> map propertyParams (q # pre) = map Inr (new # dss) \<and> propertyParams p = Inl e"
      by simp
    then show ?thesis by blast
  qed
qed

lemma reduceProperties_first_failure:
  assumes "map propertyParams pre = map Inr dss" and "propertyParams p = Inl e"
  shows "reduceProperties (pre @ p # post) acc = Inl e"
proof -
  have "reduceProperties pre acc = Inr (acc @ concat (map (map assignParent) dss))"
    using assms(1) by (subst reduceProperties_Inr_iff) blast
  with assms(2) show ?thesis
    by (simp only: reduceProperties_append reduceProperties_Cons sum.case)
qed

lemma parseDestructuredParam_head:
  "parseDestructuredParam (ObjectPattern l props) = Inr ds \<Longrightarrow>
     \<exists>children. ds = syntheticParent # children"
  by (auto simp: parseDestructuredParam_ObjectPattern reduceProperties_Inr_iff)

lemma paramNodes_self: "p \<in> set (paramNodes p)"
proof -
  have "\<exists>ns. paramNodes p = p # ns"
    using paramNodes.simps [of p] by blast
  then show ?thesis by auto
qed

lemma paramNodes_ObjectPattern:
  "node_type p = ''ObjectPattern'' \<Longrightarrow> node_properties p = Some props \<Longrightarrow>
     paramNodes p =
       p # concat (map (\<lambda>q. case property_value q of None \<Rightarrow> [] | Some v \<Rightarrow> paramNodes v) props)"
  using paramNodes.simps [of p] by simp

lemma defaultOrigin_mono:
  "defaultOrigin ns d \<Longrightarrow> set ns \<subseteq> set ns' \<Longrightarrow> defaultOrigin ns' d"
  unfolding defaultOrigin_def by blast

lemma defaultOrigin_assignParent:
  "defaultOrigin ns (assignParent d) = defaultOrigin ns d"
  by (simp add: defaultOrigin_def assignParent_def rendersDefault_def)

lemma defaultOrigin_syntheticParent: "defaultOrigin ns syntheticParent"
  by (simp add: defaultOrigin_def syntheticParent_def)

lemma literal_value_string:
  "node_type r = ''StringLiteral'' \<Longrightarrow> node_value r = Some v \<Longrightarrow>
     \<exists>lr s. r = StringLiteral lr s \<and> v = JString s"
  by (cases r) auto

lemma literal_value_number:
  "node_type r = ''NumericLiteral'' \<Longrightarrow> node_value r = Some v \<Longrightarrow>
     \<exists>lr x. r = NumericLiteral lr x \<and> v = JNumber x"
  by (cases r) auto

lemma parseAssignmentParam_reads:
  "parseAssignmentParam p = Inr ds \<Longrightarrow> \<exists>r lhs. node_right p = Some r \<and> node_left p = Some lhs"
  by (cases "node_right p"; cases "node_left p")
    (simp_all add: parseAssignmentParam_def Let_def split: if_splits)

lemma parseAssignmentParam_kinds:
  "node_right p = Some r \<Longrightarrow> node_left p = Some lhs \<Longrightarrow>
     parseAssignmentParam p =
       (if node_type r = ''StringLiteral'' then
          Inr [\<lparr>name = node_name lhs, parent = None, type = Some ''string'',
                defaultValue = node_value r\<rparr>]
        else if node_type r = ''NumericLiteral'' then
          Inr [\<lparr>name = node_name lhs, parent = None, type = Some ''number'',
                defaultValue = node_value r\<rparr>]
        else if node_type r = ''ArrayExpression'' then
          Inr [\<lparr>name = node_name lhs, parent = None, type = Some ''array'',
                defaultValue = Some (JString ''[]'')\<rparr>]
        else if node_type r = ''ObjectExpression'' then
          Inr [\<lparr>name = node_name lhs, parent = None, type = Some ''object'',
                defaultValue = Some (JString ''{}'')\<rparr>]
        else Inl (Thrown (node_type r)))"
  by (simp add: parseAssignmentParam_def Let_def)

lemma defaultOrigin_parseAssignmentParam:
  assumes "parseAssignmentParam p = Inr ds" and "node_type p = ''AssignmentPattern''"
    and "d \<in> set ds"
  shows "defaultOrigin [p] d"
proof -
  from assms(1) obtain r lhs where r: "node_right p = Some r" and lhs: "node_left p = Some lhs"
    using parseAssignmentParam_reads by blast
  note k = parseAssignmentParam_kinds [OF r lhs]
  consider (s) "node_type r = ''StringLiteral''"
      "d = \<lparr>name = node_name lhs, parent = None, type = Some ''string'',
        defaultValue = node_value r\<rparr>"
    | (n) "node_type r = ''NumericLiteral''"
      "d = \<lparr>name = node_name lhs, parent = None, type = Some ''number'',
        defaultValue = node_value r\<rparr>"
    | (a) "node_type r = ''ArrayExpression''"
      "d = \<lparr>name = node_name lhs, parent = None, type = Some ''array'',
        defaultValue = Some (JString ''[]'')\<rparr>"
    | (o) "node_type r = ''ObjectExpression''"
      "d = \<lparr>name = node_name lhs, parent = None, type = Some ''object'',
        defaultValue = Some (JString ''{}'')\<rparr>"
    using assms(1,3) unfolding k by (auto split: if_splits)
  then have "\<forall>v. defaultValue d = Some v \<longrightarrow> name d = node_name lhs \<and> rendersDefault r d v"
  proof cases
    case s
    then show ?thesis
      using literal_value_string [of r] by (auto simp: rendersDefault_def)
  next
    case n
    then show ?thesis
      using literal_value_number [of r] by (auto simp: rendersDefault_def)
  next
    case a
    then show ?thesis by (simp add: rendersDefault_def)
  next
    case o
    then show ?thesis by (simp add: rendersDefault_def)
  qed
  with r lhs assms(2) show ?thesis
    by (simp add: defaultOrigin_def)
qed

lemma defaultOrigin_results:
  shows "node_type param = ''ObjectPattern'' \<longrightarrow>
      (\<forall>ds. parseDestructuredParam param = Inr ds \<longrightarrow>
         list_all (defaultOrigin (paramNodes param)) ds)"
    and "\<forall>ns. list_all (defaultOrigin ns) acc \<longrightarrow>
      (\<forall>ds. reduceProperties props acc = Inr ds \<longrightarrow>
         list_all (defaultOrigin
           (ns @ concat (map (\<lambda>q. case property_value q of None \<Rightarrow> [] | Some v \<Rightarrow> paramNodes v)
              props))) ds)"
    and "\<forall>ds. applyParamParser v = Inr ds \<longrightarrow> list_all (defaultOrigin (paramNodes v)) ds"
proof (induction param and props acc and v
    rule: parseDestructuredParam_reduceProperties_applyParamParser.induct)
  case (1 param)
  show ?case
  proof (intro impI allI)
    fix ds
    assume k: "node_type param = ''ObjectPattern''"
      and r: "parseDestructuredParam param = Inr ds"
    from r obtain props where props: "node_properties param = Some props"
      and red: "reduceProperties props [syntheticParent] = Inr ds"
      by (auto simp: parseDestructuredParam.simps [of param] split: option.splits)
    have "list_all (defaultOrigin []) [syntheticParent]"
      by (simp add: defaultOrigin_syntheticParent)
    with "1.IH" [OF props] red
    have "list_all (defaultOrigin ([] @ concat (map (\<lambda>q. case property_value q of
        None \<Rightarrow> [] | Some v \<Rightarrow> paramNodes v) props))) ds"
      by blast
    then show "list_all (defaultOrigin (paramNodes param)) ds"
      by (auto simp: list_all_iff paramNodes_ObjectPattern [OF k props]
          elim!: defaultOrigin_mono)
  qed
next
  case (2 acc)
  show ?case by simp
next
  case (3 q props acc)
  show ?case
  proof (intro impI allI)
    fix ns ds
    assume acc: "list_all (defaultOrigin ns) acc"
      and red: "reduceProperties (q # props) acc = Inr ds"
    from red obtain v new where v: "property_value q = Some v"
      and new: "applyParamParser v = Inr new"
      and rest: "reduceProperties props (acc @ map assignParent new) = Inr ds"
      by (auto split: option.splits sum.splits)
    let ?ns = "ns @ paramNodes v"
    from "3.IH"(1) [OF v] new have "list_all (defaultOrigin (paramNodes v)) new" by blast
    then have "\<forall>d \<in> set new. defaultOrigin ?ns d"
      using defaultOrigin_mono [of "paramNodes v" _ ?ns] by (auto simp: list_all_iff)
    moreover from acc have "\<forall>d \<in> set acc. defaultOrigin ?ns d"
      using defaultOrigin_mono [of ns _ ?ns] by (auto simp: list_all_iff)
    ultimately have "list_all (defaultOrigin ?ns) (acc @ map assignParent new)"
      by (auto simp: list_all_iff defaultOrigin_assignParent)
    with "3.IH"(2) [OF v new] rest
    have "list_all (defaultOrigin (?ns @ concat (map (\<lambda>q. case property_value q of
        None \<Rightarrow> [] | Some v \<Rightarrow> paramNodes v) props))) ds"
      by blast
    then show "list_all (defaultOrigin (ns @ concat (map (\<lambda>q. case property_value q of
        None \<Rightarrow> [] | Some v \<Rightarrow> paramNodes v) (q # props)))) ds"
      by (simp add: v)
  qed
next
  case (4 v)
  show ?case
  proof (intro impI allI)
    fix ds
    assume r: "applyParamParser v = Inr ds"
    have "(if node_type v = ''Identifier'' then parseIdentifierParam v
         else if node_type v = ''AssignmentPattern'' then parseAssignmentParam v
         else if node_type v = ''RestElement'' then parseRestParam v
         else if node_type v = ''ObjectPattern'' then parseDestructuredParam v
         else Inl (Error (''Unknown param type: '' @ node_type v))) = Inr ds"
      by (rule trans [OF applyParamParser.simps [symmetric] r])
    then consider (i) "node_type v = ''Identifier''" "parseIdentifierParam v = Inr ds"
      | (a) "node_type v = ''AssignmentPattern''" "parseAssignmentParam v = Inr ds"
      | (r) "node_type v = ''RestElement''" "parseRestParam v = Inr ds"
      | (o) "node_type v = ''ObjectPattern''" "parseDestructuredParam v = Inr ds"
      by (auto split: if_splits)
    then show "list_all (defaultOrigin (paramNodes v)) ds"
    proof cases
      case i
      then show ?thesis
        by (auto simp: parseIdentifierParam_def defaultOrigin_def)
    next
      case a
      then have "\<forall>d \<in> set ds. defaultOrigin [v] d"
        using defaultOrigin_parseAssignmentParam by blast
      then show ?thesis
        by (auto simp: list_all_iff paramNodes_self elim!: defaultOrigin_mono)
    next
      case r
      then show ?thesis
        by (auto simp: parseRestParam_def defaultOrigin_def split: option.splits)
    next
      case o
      from o(1) have "node_type v \<noteq> ''Identifier''"
        and "node_type v \<noteq> ''AssignmentPattern''" and "node_type v \<noteq> ''RestElement''"
        by simp_all
      from "4.IH" [OF this o(1)] o show ?thesis by blast
    qed
  qed
qed

lemma defaultOrigin_simplifyParams:
  assumes "simplifyParams ps = Inr ds" and "d \<in> set ds"
  shows "defaultOrigin (concat (map paramNodes ps)) d"
proof -
  from assms(1) obtain dss where m: "map applyParamParser ps = map Inr dss"
    and ds: "ds = concat dss"
    by (auto simp: simplifyParams_def reduceParams_Inr_iff)
  from m have len: "length dss = length ps"
    by (metis length_map)
  from assms(2) ds obtain xs where "xs \<in> set dss" and "d \<in> set xs"
    by auto
  then obtain i where i: "i < length dss" and d: "d \<in> set (dss ! i)"
    by (auto simp: in_set_conv_nth)
  from m i len have "applyParamParser (ps ! i) = Inr (dss ! i)"
    by (metis nth_map)
  with d have "defaultOrigin (paramNodes (ps ! i)) d"
    using defaultOrigin_results(3) [of "ps ! i"] by (auto simp: list_all_iff)
  moreover have "set (paramNodes (ps ! i)) \<subseteq> set (concat (map paramNodes ps))"
    using i len nth_mem [of i ps] by (auto simp del: nth_mem)
  ultimately show ?thesis by (rule defaultOrigin_mono)
qed

lemma parse_Some_located:
  assumes "parse parser code lineNumArg = Inr (Some fd)"
  shows "\<exists>ast fn ps. getAST parser code = Inr ast
     \<and> getNode ast (case lineNumArg of None \<Rightarrow> 1 | Some n \<Rightarrow> n) = Inr (Some fn)
     \<and> fn_params fn = Some ps \<and> simplifyParams ps = Inr (params fd)"
  using assms
  by (auto simp: parse_def simplifyNode_def Let_def split: sum.splits option.splits)

lemma parse_located:
  "getAST parser code = Inr ast \<Longrightarrow> getNode ast lineNum = Inr (Some fn) \<Longrightarrow>
     parse parser code (Some lineNum) =
       (case simplifyNode fn of Inl e \<Rightarrow> Inl e | Inr simplified \<Rightarrow> Inr (Some simplified))"
  by (simp add: parse_def)

lemma simplifyNode_location:
  "simplifyNode fn = Inr d \<Longrightarrow> location d = simplifyLocation (fn_loc fn)"
  by (auto simp: simplifyNode_def split: option.splits sum.splits)

section \<open>Properties of the locator\<close>

lemma visitAll_append:
  "visitAll visitor (xs @ ys) s =
     (case visitAll visitor xs s of Inl e \<Rightarrow> Inl e | Inr s' \<Rightarrow> visitAll visitor ys s')"
proof (induction xs arbitrary: s)
  case Nil
  show ?case by simp
next
  case (Cons x xs)
  obtain r n where x: "x = (r, n)" by (cases x)
  show ?case
    by (cases "visitor r n s") (simp_all add: x Cons.IH)
qed

text \<open>A visitor that returns leaves \<open>node\<close> as it is unless the visited node matches.\<close>

lemma visitors_no_match:
  assumes "visitors lineNum r n s = Inr s'" and "\<not> matches lineNum n"
  shows "node s' = node s"
  using assms
  by (auto simp: visitors_def matches_def visitFunctionDeclaration_def
      visitVariableDeclaration_def visitExportDeclaration_def visitAssignmentExpression_def
      split: if_splits option.splits list.splits)

lemma visitors_match:
  assumes "visitors lineNum r n s = Inr s'" and "matches lineNum n"
  shows "\<exists>fn. node s' = Some fn"
  using assms
  by (auto simp: visitors_def matches_def visitFunctionDeclaration_def
      visitVariableDeclaration_def visitExportDeclaration_def visitAssignmentExpression_def
      split: if_splits option.splits list.splits)

lemma visitAll_no_match:
  assumes "visitAll (visitors lineNum) xs s = Inr s'"
    and "list_all (\<lambda>(r, n). \<not> matches lineNum n) xs"
  shows "node s' = node s"
  using assms
proof (induction xs arbitrary: s)
  case Nil
  then show ?case by simp
next
  case (Cons x xs)
  obtain r n where x: "x = (r, n)" by (cases x)
  from Cons.prems(1) obtain s1 where s1: "visitors lineNum r n s = Inr s1"
    and rest: "visitAll (visitors lineNum) xs s1 = Inr s'"
    by (auto simp: x split: sum.splits)
  from Cons.prems(2) have "\<not> matches lineNum n" and "list_all (\<lambda>(r, n). \<not> matches lineNum n) xs"
    by (simp_all add: x)
  with s1 rest Cons.IH show ?case
    by (metis visitors_no_match)
qed

text \<open>
  The state after a traversal that returns: \<open>node\<close> is still the initial one if no visited
  node matches; otherwise it is what the visitor assigned at the last visited node that
  matches.
\<close>

lemma visitAll_last_match:
  assumes "visitAll (visitors lineNum) xs s = Inr s'"
  shows "(list_all (\<lambda>(r, n). \<not> matches lineNum n) xs \<and> node s' = node s)
     \<or> (\<exists>pre r n post s1 s2. xs = pre @ (r, n) # post
          \<and> matches lineNum n
          \<and> list_all (\<lambda>(r, n). \<not> matches lineNum n) post
          \<and> visitAll (visitors lineNum) pre s = Inr s1
          \<and> visitors lineNum r n s1 = Inr s2
          \<and> node s' = node s2)"
  using assms
proof (induction xs arbitrary: s' rule: rev_induct)
  case Nil
  then show ?case by simp
next
  case (snoc x xs)
  obtain r n where x: "x = (r, n)" by (cases x)
  from snoc.prems obtain s1 where s1: "visitAll (visitors lineNum) xs s = Inr s1"
    and last: "visitors lineNum r n s1 = Inr s'"
    by (auto simp: x visitAll_append split: sum.splits)
  show ?case
  proof (cases "matches lineNum n")
    case True
    have "xs @ [x] = xs @ (r, n) # []" by (simp add: x)
    with True s1 last show ?thesis
      by (intro disjI2 exI [of _ xs] exI [of _ r] exI [of _ n] exI [of _ "[]"]
          exI [of _ s1] exI [of _ s']) simp
  next
    case False
    with last have same: "node s' = node s1" by (rule visitors_no_match)
    from snoc.IH [OF s1] show ?thesis
    proof
      assume "list_all (\<lambda>(r, n). \<not> matches lineNum n) xs \<and> node s1 = node s"
      with False same show ?thesis by (simp add: x)
    next
      assume "\<exists>pre r n post s1' s2. xs = pre @ (r, n) # post
          \<and> matches lineNum n
          \<and> list_all (\<lambda>(r, n). \<not> matches lineNum n) post
          \<and> visitAll (visitors lineNum) pre s = Inr s1'
          \<and> visitors lineNum r n s1' = Inr s2
          \<and> node s1 = node s2"
      then obtain pre r0 n0 post s1' s2 where "xs = pre @ (r0, n0) # post"
        and "matches lineNum n0"
        and "list_all (\<lambda>(r, n). \<not> matches lineNum n) post"
        and "visitAll (visitors lineNum) pre s = Inr s1'"
        and "visitors lineNum r0 n0 s1' = Inr s2"
        and "node s1 = node s2"
        by blast
      with False same have "xs @ [x] = pre @ (r0, n0) # (post @ [x])
          \<and> matches lineNum n0
          \<and> list_all (\<lambda>(r, n). \<not> matches lineNum n) (post @ [x])
          \<and> visitAll (visitors lineNum) pre s = Inr s1'
          \<and> visitors lineNum r0 n0 s1' = Inr s2
          \<and> node s' = node s2"
        by (simp add: x)
      then show ?thesis by blast
    qed
  qed
qed

text \<open>
  What \<open>getNode\<close> returns when it returns: \<open>null\<close> exactly when no visited node matches,
  and otherwise the function node assigned at the last visited node that matches.
\<close>

lemma getNode_returns_last_match:
  assumes "getNode ast lineNum = Inr res"
  shows "(res = None \<and> list_all (\<lambda>(r, n). \<not> matches lineNum n) (visited ast))
     \<or> (\<exists>pre r n post s1 s2 fn. visited ast = pre @ (r, n) # post
          \<and> matches lineNum n
          \<and> list_all (\<lambda>(r, n). \<not> matches lineNum n) post
          \<and> visitAll (visitors lineNum) pre \<lparr>node = None, exported = None\<rparr> = Inr s1
          \<and> visitors lineNum r n s1 = Inr s2
          \<and> node s2 = Some fn \<and> res = Some fn)"
proof -
  from assms obtain s' where run: "visitAll (visitors lineNum) (visited ast)
      \<lparr>node = None, exported = None\<rparr> = Inr s'" and res: "res = node s'"
    by (auto simp: getNode_def traverse_def split: sum.splits)
  from visitAll_last_match [OF run] show ?thesis
  proof
    assume "list_all (\<lambda>(r, n). \<not> matches lineNum n) (visited ast)
        \<and> node s' = node \<lparr>node = None, exported = None\<rparr>"
    with res show ?thesis by simp
  next
    assume "\<exists>pre r n post s1 s2. visited ast = pre @ (r, n) # post
        \<and> matches lineNum n
        \<and> list_all (\<lambda>(r, n). \<not> matches lineNum n) post
        \<and> visitAll (visitors lineNum) pre \<lparr>node = None, exported = None\<rparr> = Inr s1
        \<and> visitors lineNum r n s1 = Inr s2
        \<and> node s' = node s2"
    then obtain pre r n post s1 s2 where v: "visited ast = pre @ (r, n) # post"
      and m: "matches lineNum n"
      and p: "list_all (\<lambda>(r, n). \<not> matches lineNum n) post"
      and a: "visitAll (visitors lineNum) pre \<lparr>node = None, exported = None\<rparr> = Inr s1"
      and b: "visitors lineNum r n s1 = Inr s2"
      and c: "node s' = node s2"
      by blast
    from visitors_match [OF b m] obtain fn where "node s2 = Some fn" by blast
    with v m p a b c res show ?thesis by (metis (no_types, lifting))
  qed
qed

text \<open>An arrow function is not matched in either shape, nor as a node of its own.\<close>

lemma arrow_function_not_matched:
  "\<not> matches lineNum
      (VariableDeclaration l (VariableDeclarator ld i (Some (ArrowFunctionExpression la ps b)) # ds))"
  "\<not> matches lineNum (AssignmentExpression l lhs (ArrowFunctionExpression la ps b))"
  "\<not> matches lineNum (ArrowFunctionExpression la ps b)"
  by (simp_all add: matches_def)

text \<open>
  The visitor of a variable declaration raises at a first declarator without initializer
  when the declaration starts on the target line or the line below.
\<close>

lemma uninitialised_declaration_raises:
  "onLine (VariableDeclaration l (VariableDeclarator ld i None # ds)) lineNum \<Longrightarrow>
     visitors lineNum r (VariableDeclaration l (VariableDeclarator ld i None # ds)) s =
       Inl TypeError"
  by (simp add: visitors_def visitVariableDeclaration_def)

text \<open>
  A function declaration that is the payload of an export statement is visited right
  after it and, when it matches, takes the export statement's location.
\<close>

lemma preorder_export_first:
  "node_declaration e = Some d \<Longrightarrow>
     node_type e = ''ExportNamedDeclaration'' \<or> node_type e = ''ExportDefaultDeclaration'' \<Longrightarrow>
     \<exists>rest. preorder r e = (r, e) # (r @ [(''declaration'', 0)], d) # rest"
proof -
  assume "node_declaration e = Some d"
    and "node_type e = ''ExportNamedDeclaration'' \<or> node_type e = ''ExportDefaultDeclaration''"
  then obtain cs where cs: "children e = ((''declaration'', 0), d) # cs"
    by (cases e) (auto simp: opt_def one_def)
  have "\<exists>ds. preorder r' d = (r', d) # ds" for r'
    by (simp add: preorder.simps [of r' d])
  then obtain ds where ds: "preorder (r @ [(''declaration'', 0)]) d =
      (r @ [(''declaration'', 0)], d) # ds"
    by blast
  have "preorder r e = (r, e) # concat (map (\<lambda>(k, c). preorder (r @ [k]) c) (children e))"
    by (rule preorder.simps)
  then have "preorder r e = (r, e) # (r @ [(''declaration'', 0)], d)
      # (ds @ concat (map (\<lambda>(k, c). preorder (r @ [k]) c) cs))"
    by (simp add: cs ds)
  then show ?thesis by blast
qed

lemma exported_function_declaration_adopts_location:
  assumes "node_declaration e = Some d"
    and "node_type e = ''ExportNamedDeclaration'' \<or> node_type e = ''ExportDefaultDeclaration''"
    and "node_type d = ''FunctionDeclaration''"
    and "onLine d lineNum"
  shows "\<exists>s'. visitAll (visitors lineNum) [(r, e), (r @ [(''declaration'', 0)], d)] s = Inr s'
     \<and> map_option fn_loc (node s') = Some (node_loc e)"
  using assms
  by (auto simp: visitors_def visitExportDeclaration_def visitFunctionDeclaration_def
      declarationRef_def)

text \<open>
  The same at \<^verbatim>\<open>export function f() {}\<close>: the function declaration starts at column
  7 and is reported at column 0, where the export statement starts.
\<close>

lemma exported_function_reports_export_location:
  "getNode ast_export_function 1 =
     Inr (Some \<lparr>fn_id = Some (IdObject (Some ''f'')), fn_loc = span 1 0 1 22,
                fn_params = Some []\<rparr>)"
  by code_simp

text \<open>An error of the parameter simplifier is the error of \<open>parse\<close> when the located
  function has an \<open>id\<close>.\<close>

lemma parse_params_error:
  assumes "getAST parser code = Inr ast"
    and "getNode ast lineNum = Inr (Some fn)"
    and "fn_id fn = Some i"
    and "fn_params fn = Some ps"
    and "simplifyParams ps = Inl e"
  shows "parse parser code (Some lineNum) = Inl e"
  using assms by (simp add: parse_located simplifyNode_def)

text \<open>
  What the simplifier does with a parameter of a kind outside the four variants, and with a
  default of a kind outside the four literal kinds: a parameter list that holds one is not
  simplified; where the parameters \<open>before\<close> it simplify, the error is
  \<open>Unknown param type: <kind>\<close> for the first, an \<open>Error\<close> object, and the bare kind name of
  the default expression for the second.
\<close>

lemma unknown_param_type_fails:
  "(p \<in> set ps \<longrightarrow>
      node_type p \<notin> {''Identifier'', ''AssignmentPattern'', ''RestElement'',
        ''ObjectPattern''} \<longrightarrow>
      (\<exists>e. simplifyParams ps = Inl e))
   \<and> (AssignmentPattern l lhs dflt \<in> set ps \<longrightarrow>
      node_type dflt \<notin> {''StringLiteral'', ''NumericLiteral'', ''ArrayExpression'',
        ''ObjectExpression''} \<longrightarrow>
      (\<exists>e. simplifyParams ps = Inl e))
   \<and> (simplifyParams before = Inr ds \<longrightarrow>
      node_type p \<notin> {''Identifier'', ''AssignmentPattern'', ''RestElement'',
        ''ObjectPattern''} \<longrightarrow>
      simplifyParams (before @ p # rest) =
        Inl (Error (''Unknown param type: '' @ node_type p)))
   \<and> (simplifyParams before = Inr ds \<longrightarrow>
      node_type dflt \<notin> {''StringLiteral'', ''NumericLiteral'', ''ArrayExpression'',
        ''ObjectExpression''} \<longrightarrow>
      parseAssignmentParam (AssignmentPattern l lhs dflt) = Inl (Thrown (node_type dflt))
      \<and> simplifyParams (before @ AssignmentPattern l lhs dflt # rest) =
          Inl (Thrown (node_type dflt)))
   \<and> (getAST parser code = Inr ast \<longrightarrow> getNode ast lineNum = Inr (Some fn) \<longrightarrow>
      fn_id fn = Some i \<longrightarrow> fn_params fn = Some ps \<longrightarrow> simplifyParams ps = Inl e \<longrightarrow>
      parse parser code (Some lineNum) = Inl e)"
proof (intro conjI impI)
  assume "p \<in> set ps"
    and "node_type p \<notin> {''Identifier'', ''AssignmentPattern'', ''RestElement'',
      ''ObjectPattern''}"
  then have "\<not> (\<exists>new. simplifyParams ps = Inr new)"
    using simplifyParams_Inr_each [of ps _ p] by (auto simp: applyParamParser_unknown)
  then show "\<exists>e. simplifyParams ps = Inl e"
    by (cases "simplifyParams ps") auto
next
  assume "AssignmentPattern l lhs dflt \<in> set ps"
    and "node_type dflt \<notin> {''StringLiteral'', ''NumericLiteral'', ''ArrayExpression'',
      ''ObjectExpression''}"
  then have "\<not> (\<exists>new. simplifyParams ps = Inr new)"
    using simplifyParams_Inr_each [of ps _ "AssignmentPattern l lhs dflt"]
    by (auto simp: applyParamParser.simps parseAssignmentParam_unknown)
  then show "\<exists>e. simplifyParams ps = Inl e"
    by (cases "simplifyParams ps") auto
next
  assume "simplifyParams before = Inr ds"
    and "node_type p \<notin> {''Identifier'', ''AssignmentPattern'', ''RestElement'',
      ''ObjectPattern''}"
  then show "simplifyParams (before @ p # rest) =
      Inl (Error (''Unknown param type: '' @ node_type p))"
    by (simp add: simplifyParams_def reduceParams_append reduceParams_Cons
        applyParamParser_unknown del: reduceParams.simps(2))
next
  assume "node_type dflt \<notin> {''StringLiteral'', ''NumericLiteral'', ''ArrayExpression'',
      ''ObjectExpression''}"
  then show "parseAssignmentParam (AssignmentPattern l lhs dflt) =
      Inl (Thrown (node_type dflt))"
    by (rule parseAssignmentParam_unknown)
next
  assume "simplifyParams before = Inr ds"
    and "node_type dflt \<notin> {''StringLiteral'', ''NumericLiteral'', ''ArrayExpression'',
      ''ObjectExpression''}"
  then show "simplifyParams (before @ AssignmentPattern l lhs dflt # rest) =
      Inl (Thrown (node_type dflt))"
    by (simp add: simplifyParams_def reduceParams_append reduceParams_Cons
        applyParamParser.simps parseAssignmentParam_unknown del: reduceParams.simps(2))
next
  assume "getAST parser code = Inr ast" and "getNode ast lineNum = Inr (Some fn)"
    and "fn_id fn = Some i" and "fn_params fn = Some ps" and "simplifyParams ps = Inl e"
  then show "parse parser code (Some lineNum) = Inl e"
    by (rule parse_params_error)
qed

text \<open>
  The first at \<^verbatim>\<open>function f(a, [b]) {}\<close>, where \<open>parse\<close> raises the \<open>Error\<close>; the second
  at \<^verbatim>\<open>function f(a = g()) {}\<close>, where \<open>parse\<close> raises the string \<open>CallExpression\<close>, not
  an \<open>Error\<close> with the message that \<open>getParamParser\<close> builds.
\<close>

lemma unknown_param_kind_raises_error:
  "parse (\<lambda>code. Inr ast_array_pattern_param) ''function f(a, [b]) {}'' (Some 1) =
     Inl (Error ''Unknown param type: ArrayPattern'')"
  by code_simp

lemma unsupported_default_throws_bare_string:
  "parse (\<lambda>code. Inr ast_call_default) ''function f(a = g()) {}'' (Some 1) =
     Inl (Thrown ''CallExpression'')"
  by code_simp

section \<open>The claims\<close>

text \<open>
  C1. A target line with no function gives \<open>null\<close> and never an error, also when the line
  holds a variable declaration without an initializer. The program does not do this: for
  \<^verbatim>\<open>var x;\<close> and target line 1 the initializer is \<open>null\<close>, the visitor of variable
  declarations reads its \<open>type\<close>, and \<open>parse\<close> raises a \<open>TypeError\<close>.
\<close>

theorem C1_uninitialised_var_raises:
  "parse (\<lambda>code. Inr ast_uninitialised_var) ''var x;'' (Some 1) = Inl TypeError"
  by code_simp

text \<open>
  C2. A destructured parameter with a property whose value is itself an object pattern
  fails with \<open>UnknownParamType\<close>. This is not so: \<open>ObjectPattern\<close> is in the table of
  parameter parsers, and the parameter of \<^verbatim>\<open>function f({a: {b}}) {}\<close> simplifies to
  three descriptors.
\<close>

theorem C2_nested_pattern_is_simplified:
  "parseDestructuredParam param_nested_pattern =
     Inr [\<lparr>name = Some ''Unknown'', parent = None, type = Some ''object'',
           defaultValue = None\<rparr>,
          \<lparr>name = Some ''Unknown'', parent = Some ''Unknown'', type = Some ''object'',
           defaultValue = None\<rparr>,
          \<lparr>name = Some ''b'', parent = Some ''Unknown'', type = None,
           defaultValue = None\<rparr>]"
  by code_simp

text \<open>
  C2, amended. A property whose value is an object pattern is simplified by the same
  dispatch: what the property contributes is the result of \<open>parseDestructuredParam\<close> on
  the nested pattern. Where the properties \<open>before\<close> and \<open>after\<close> it simplify (to \<open>dss1\<close>
  and \<open>dss2\<close>) and the nested pattern simplifies to \<open>ds\<close>, the parameter simplifies to the
  synthetic parent followed by the descriptors of all properties in order, each with
  \<open>parent\<close> set to \<open>Unknown\<close>; \<open>ds\<close>, which stands in place, begins with the nested
  pattern's own synthetic parent. Where the properties \<open>before\<close> simplify and the nested
  pattern fails, the parameter fails with the nested pattern's error; where they simplify
  and the value \<open>v\<close> of the property is of a kind outside the four variants, such as an
  array pattern, the parameter fails with \<open>Unknown param type: <kind>\<close>. A parameter fails
  only with the error of its first property that fails.
\<close>

theorem C2_nested_object_pattern:
  "propertyParams (ObjectProperty lp k (ObjectPattern l' inner)) =
     parseDestructuredParam (ObjectPattern l' inner)
   \<and> (map propertyParams before = map Inr dss1 \<longrightarrow> map propertyParams after = map Inr dss2 \<longrightarrow>
      parseDestructuredParam (ObjectPattern l' inner) = Inr ds \<longrightarrow>
        parseDestructuredParam
          (ObjectPattern l (before @ ObjectProperty lp k (ObjectPattern l' inner) # after)) =
          Inr (\<lparr>name = Some ''Unknown'', parent = None, type = Some ''object'',
                defaultValue = None\<rparr>
               # map (\<lambda>d. d\<lparr>parent := Some ''Unknown''\<rparr>) (concat (dss1 @ ds # dss2)))
        \<and> (\<exists>children. ds =
              \<lparr>name = Some ''Unknown'', parent = None, type = Some ''object'',
                defaultValue = None\<rparr> # children))
   \<and> (map propertyParams before = map Inr dss1 \<longrightarrow>
      parseDestructuredParam (ObjectPattern l' inner) = Inl e \<longrightarrow>
        parseDestructuredParam
          (ObjectPattern l (before @ ObjectProperty lp k (ObjectPattern l' inner) # after)) =
          Inl e)
   \<and> (map propertyParams before = map Inr dss1 \<longrightarrow>
      node_type v \<notin> {''Identifier'', ''AssignmentPattern'', ''RestElement'',
        ''ObjectPattern''} \<longrightarrow>
        parseDestructuredParam (ObjectPattern l (before @ ObjectProperty lp k v # after)) =
          Inl (Error (''Unknown param type: '' @ node_type v)))
   \<and> (parseDestructuredParam (ObjectPattern l props) = Inl e \<longrightarrow>
      (\<exists>pre p post dss. props = pre @ p # post \<and> map propertyParams pre = map Inr dss
         \<and> propertyParams p = Inl e))"
proof (intro conjI impI)
  show nested: "propertyParams (ObjectProperty lp k (ObjectPattern l' inner)) =
      parseDestructuredParam (ObjectPattern l' inner)"
    by (simp only: propertyParams_ObjectProperty applyParamParser_ObjectPattern)
  {
    assume b: "map propertyParams before = map Inr dss1"
      and a: "map propertyParams after = map Inr dss2"
      and n: "parseDestructuredParam (ObjectPattern l' inner) = Inr ds"
    from b a n nested
    have "map propertyParams (before @ ObjectProperty lp k (ObjectPattern l' inner) # after) =
        map Inr (dss1 @ ds # dss2)"
      by simp
    then have "reduceProperties
        (before @ ObjectProperty lp k (ObjectPattern l' inner) # after) [syntheticParent] =
        Inr ([syntheticParent] @ concat (map (map assignParent) (dss1 @ ds # dss2)))"
      by (subst reduceProperties_Inr_iff) blast
    moreover have "concat (map (map assignParent) (dss1 @ ds # dss2)) =
        map (\<lambda>d. d\<lparr>parent := Some ''Unknown''\<rparr>) (concat (dss1 @ ds # dss2))"
      by (simp only: map_concat [symmetric])
        (simp add: assignParent_def [abs_def] DEFAULT_PARAM_NAME_def)
    ultimately show "parseDestructuredParam
        (ObjectPattern l (before @ ObjectProperty lp k (ObjectPattern l' inner) # after)) =
        Inr (\<lparr>name = Some ''Unknown'', parent = None, type = Some ''object'',
              defaultValue = None\<rparr>
             # map (\<lambda>d. d\<lparr>parent := Some ''Unknown''\<rparr>) (concat (dss1 @ ds # dss2)))"
      by (simp add: parseDestructuredParam_ObjectPattern syntheticParent_def
          DEFAULT_PARAM_NAME_def)
    from parseDestructuredParam_head [OF n]
    show "\<exists>children. ds =
        \<lparr>name = Some ''Unknown'', parent = None, type = Some ''object'',
          defaultValue = None\<rparr> # children"
      by (simp add: syntheticParent_def DEFAULT_PARAM_NAME_def)
  }
  {
    assume b: "map propertyParams before = map Inr dss1"
      and n: "parseDestructuredParam (ObjectPattern l' inner) = Inl e"
    from n nested have "propertyParams (ObjectProperty lp k (ObjectPattern l' inner)) = Inl e"
      by simp
    with b show "parseDestructuredParam
        (ObjectPattern l (before @ ObjectProperty lp k (ObjectPattern l' inner) # after)) =
        Inl e"
      by (simp only: parseDestructuredParam_ObjectPattern reduceProperties_first_failure)
  }
  {
    assume b: "map propertyParams before = map Inr dss1"
      and k: "node_type v \<notin> {''Identifier'', ''AssignmentPattern'', ''RestElement'',
        ''ObjectPattern''}"
    from k have "propertyParams (ObjectProperty lp k v) =
        Inl (Error (''Unknown param type: '' @ node_type v))"
      by (simp add: propertyParams_ObjectProperty applyParamParser_unknown)
    with b show "parseDestructuredParam
        (ObjectPattern l (before @ ObjectProperty lp k v # after)) =
        Inl (Error (''Unknown param type: '' @ node_type v))"
      by (simp only: parseDestructuredParam_ObjectPattern reduceProperties_first_failure)
  }
  {
    assume "parseDestructuredParam (ObjectPattern l props) = Inl e"
    then show "\<exists>pre p post dss. props = pre @ p # post
        \<and> map propertyParams pre = map Inr dss \<and> propertyParams p = Inl e"
      by (simp only: parseDestructuredParam_ObjectPattern) (rule reduceProperties_Inl)
  }
qed

text \<open>
  The amended claim at object patterns with the properties of \<^verbatim>\<open>{a: {b}, x, y = 1}\<close>, of
  \<^verbatim>\<open>{a: {b: [b]}, c = g()}\<close> and of \<^verbatim>\<open>{a: [b], c = g()}\<close>; the locations play no part in
  the simplification.
\<close>

theorem C2_nested_object_pattern_witness:
  "parseDestructuredParam (ObjectPattern (span 1 11 1 19)
     ([] @ ObjectProperty (span 1 12 1 18) (Identifier (span 1 12 1 13) ''a'')
        (ObjectPattern (span 1 15 1 18)
           [ObjectProperty (span 1 16 1 17) (Identifier (span 1 16 1 17) ''b'')
              (Identifier (span 1 16 1 17) ''b'')]) # param_x_y)) =
     Inr [\<lparr>name = Some ''Unknown'', parent = None, type = Some ''object'',
           defaultValue = None\<rparr>,
          \<lparr>name = Some ''Unknown'', parent = Some ''Unknown'', type = Some ''object'',
           defaultValue = None\<rparr>,
          \<lparr>name = Some ''b'', parent = Some ''Unknown'', type = None, defaultValue = None\<rparr>,
          \<lparr>name = Some ''x'', parent = Some ''Unknown'', type = None, defaultValue = None\<rparr>,
          \<lparr>name = Some ''y'', parent = Some ''Unknown'', type = Some ''number'',
           defaultValue = Some (JNumber 1)\<rparr>]
   \<and> parseDestructuredParam (ObjectPattern (span 1 11 1 30)
       ([] @ ObjectProperty (span 1 12 1 21) (Identifier (span 1 12 1 13) ''a'')
          (ObjectPattern (span 1 15 1 21)
             [ObjectProperty (span 1 16 1 20) (Identifier (span 1 16 1 17) ''b'')
                param_array_pattern]) # [property_default_call])) =
       Inl (Error ''Unknown param type: ArrayPattern'')
   \<and> parseDestructuredParam (ObjectPattern (span 1 11 1 28)
       ([] @ ObjectProperty (span 1 12 1 18) (Identifier (span 1 12 1 13) ''a'')
          param_array_pattern # [property_default_call])) =
       Inl (Error ''Unknown param type: ArrayPattern'')
   \<and> (\<exists>pre p post dss.
         [ObjectProperty (span 1 12 1 13) (Identifier (span 1 12 1 13) ''x'')
            (Identifier (span 1 12 1 13) ''x''), property_default_call] = pre @ p # post
         \<and> map propertyParams pre = map Inr dss
         \<and> propertyParams p = Inl (Thrown ''CallExpression''))"
proof -
  let ?dss2 = "[[\<lparr>name = Some ''x'', parent = None, type = None, defaultValue = None\<rparr>],
      [\<lparr>name = Some ''y'', parent = None, type = Some ''number'',
        defaultValue = Some (JNumber 1)\<rparr>]]"
  let ?inner = "[ObjectProperty (span 1 16 1 17) (Identifier (span 1 16 1 17) ''b'')
      (Identifier (span 1 16 1 17) ''b'')]"
  let ?ds = "[\<lparr>name = Some ''Unknown'', parent = None, type = Some ''object'',
        defaultValue = None\<rparr>,
      \<lparr>name = Some ''b'', parent = Some ''Unknown'', type = None, defaultValue = None\<rparr>]"
  let ?bad = "[ObjectProperty (span 1 16 1 20) (Identifier (span 1 16 1 17) ''b'')
      param_array_pattern]"
  let ?xc = "[ObjectProperty (span 1 12 1 13) (Identifier (span 1 12 1 13) ''x'')
      (Identifier (span 1 12 1 13) ''x''), property_default_call]"
  have b: "map propertyParams [] = map Inr []"
    by simp
  have a: "map propertyParams param_x_y = map Inr ?dss2"
    by code_simp
  have n: "parseDestructuredParam (ObjectPattern (span 1 15 1 18) ?inner) = Inr ?ds"
    by code_simp
  have f: "parseDestructuredParam (ObjectPattern (span 1 15 1 21) ?bad) =
      Inl (Error ''Unknown param type: ArrayPattern'')"
    by code_simp
  have k: "node_type param_array_pattern \<notin> {''Identifier'', ''AssignmentPattern'',
      ''RestElement'', ''ObjectPattern''}"
    by (simp add: param_array_pattern_def)
  have x: "parseDestructuredParam (ObjectPattern (span 1 11 1 21) ?xc) =
      Inl (Thrown ''CallExpression'')"
    by code_simp
  note t1 = C2_nested_object_pattern [where before = "[]" and ?dss1.0 = "[]"
      and after = param_x_y and ?dss2.0 = ?dss2 and l' = "span 1 15 1 18" and inner = ?inner
      and ds = ?ds and l = "span 1 11 1 19" and lp = "span 1 12 1 18"
      and k = "Identifier (span 1 12 1 13) ''a''"]
  note w1 = t1 [THEN conjunct2, THEN conjunct1, rule_format, OF b a n, THEN conjunct1]
  note t2 = C2_nested_object_pattern [where before = "[]" and ?dss1.0 = "[]"
      and after = "[property_default_call]" and l' = "span 1 15 1 21" and inner = ?bad
      and e = "Error ''Unknown param type: ArrayPattern''"
      and l = "span 1 11 1 30" and lp = "span 1 12 1 21"
      and k = "Identifier (span 1 12 1 13) ''a''"]
  note w2 = t2 [THEN conjunct2, THEN conjunct2, THEN conjunct1, rule_format, OF b f]
  note t3 = C2_nested_object_pattern [where before = "[]" and ?dss1.0 = "[]"
      and after = "[property_default_call]" and v = param_array_pattern
      and l = "span 1 11 1 28" and lp = "span 1 12 1 18"
      and k = "Identifier (span 1 12 1 13) ''a''"]
  have kind: "node_type param_array_pattern = ''ArrayPattern''"
    by (simp add: param_array_pattern_def)
  note w3 = t3 [THEN conjunct2, THEN conjunct2, THEN conjunct2, THEN conjunct1, rule_format,
      OF b k]
  note t4 = C2_nested_object_pattern [where l = "span 1 11 1 21" and props = ?xc
      and e = "Thrown ''CallExpression''"]
  note w4 = t4 [THEN conjunct2, THEN conjunct2, THEN conjunct2, THEN conjunct2, rule_format,
      OF x]
  have w1': "parseDestructuredParam (ObjectPattern (span 1 11 1 19)
      ([] @ ObjectProperty (span 1 12 1 18) (Identifier (span 1 12 1 13) ''a'')
         (ObjectPattern (span 1 15 1 18) ?inner) # param_x_y)) =
      Inr [\<lparr>name = Some ''Unknown'', parent = None, type = Some ''object'',
            defaultValue = None\<rparr>,
           \<lparr>name = Some ''Unknown'', parent = Some ''Unknown'', type = Some ''object'',
            defaultValue = None\<rparr>,
           \<lparr>name = Some ''b'', parent = Some ''Unknown'', type = None, defaultValue = None\<rparr>,
           \<lparr>name = Some ''x'', parent = Some ''Unknown'', type = None, defaultValue = None\<rparr>,
           \<lparr>name = Some ''y'', parent = Some ''Unknown'', type = Some ''number'',
            defaultValue = Some (JNumber 1)\<rparr>]"
    by (simp only: w1) simp
  have w3': "parseDestructuredParam (ObjectPattern (span 1 11 1 28)
      ([] @ ObjectProperty (span 1 12 1 18) (Identifier (span 1 12 1 13) ''a'')
         param_array_pattern # [property_default_call])) =
      Inl (Error ''Unknown param type: ArrayPattern'')"
    using w3 by (simp add: kind)
  show ?thesis
    by (rule conjI [OF w1' conjI [OF w2 conjI [OF w3' w4]]])
qed




text \<open>
  C4. The locator returns the most recently visited function that starts on the target
  line or the line below, and \<open>null\<close> when there is none. The program does not do this
  when a declaration without an initializer starts on one of the two lines: in the
  three-line function below, \<open>f\<close> starts on target line 1 and is the only function, and
  \<open>getNode\<close> raises a \<open>TypeError\<close> at \<^verbatim>\<open>var x;\<close> on line 2 instead of returning \<open>f\<close>.
\<close>

theorem C4_function_with_uninitialised_var_raises:
  "getNode ast_function_with_var 1 = Inl TypeError"
  by code_simp

text \<open>
  C5. A parameter whose default is an array literal gets type \<open>array\<close> and the default
  value \<open>[]\<close>, whatever the elements \<open>es\<close> are; one whose default is an object literal gets
  type \<open>object\<close> and the default value \<open>{}\<close>, whatever the properties \<open>ps\<close> are. This holds
  for the parser of defaulted parameters and for a parameter list that holds such a parameter.
\<close>

theorem C5_array_and_object_defaults:
  "parseAssignmentParam (AssignmentPattern l lhs (ArrayExpression la es)) =
     Inr [\<lparr>name = node_name lhs, parent = None, type = Some ''array'',
           defaultValue = Some (JString ''[]'')\<rparr>]
   \<and> parseAssignmentParam (AssignmentPattern l lhs (ObjectExpression lo ps)) =
     Inr [\<lparr>name = node_name lhs, parent = None, type = Some ''object'',
           defaultValue = Some (JString ''{}'')\<rparr>]
   \<and> simplifyParams [AssignmentPattern l lhs (ArrayExpression la es)] =
     Inr [\<lparr>name = node_name lhs, parent = None, type = Some ''array'',
           defaultValue = Some (JString ''[]'')\<rparr>]
   \<and> simplifyParams [AssignmentPattern l lhs (ObjectExpression lo ps)] =
     Inr [\<lparr>name = node_name lhs, parent = None, type = Some ''object'',
           defaultValue = Some (JString ''{}'')\<rparr>]"
  by (simp add: parseAssignmentParam_def simplifyParams_def getParamParser_def
      PARAM_PARSERS_def)

text \<open>
  C6. Every \<open>defaultValue\<close> that \<open>parse\<close> emits is a string. This fails for a numeric
  default: the descriptor of \<open>a\<close> in \<^verbatim>\<open>function f(a = 1) {}\<close> carries the number 1.
\<close>

theorem C6_numeric_default_is_a_number:
  "parse (\<lambda>code. Inr ast_numeric_default) ''function f(a = 1) {}'' None =
     Inr (Some \<lparr>fname = Some ''f'', location = \<lparr>line = 1, column = 0\<rparr>,
       params = [\<lparr>name = Some ''a'', parent = None, type = Some ''number'',
                  defaultValue = Some (JNumber 1)\<rparr>],
       freturns = \<lparr>returns = False\<rparr>\<rparr>)
   \<and> \<not> isString (JNumber 1)"
  by code_simp

text \<open>
  C6, amended. A parameter whose default is the numeric literal \<open>x\<close> gets the number \<open>x\<close>
  as its default value, with the type \<open>number\<close>; one whose default is the string literal
  \<open>s\<close> gets the string \<open>s\<close>, with the type \<open>string\<close>. In every descriptor \<open>d\<close> that \<open>parse\<close>
  emits, a default value \<open>v\<close> that is present comes from a defaulted parameter \<open>p\<close> with
  the name of \<open>d\<close>, among the parameters \<open>ps\<close> of the located function and the parameters
  nested in their object patterns: \<open>v\<close> is the number of \<open>p\<close>'s default when that is a
  numeric literal, its string when it is a string literal, and the string \<open>[]\<close> or \<open>{}\<close>
  when it is an array or an object literal.
\<close>

theorem C6_default_value_kinds:
  "parseAssignmentParam (AssignmentPattern l lhs (NumericLiteral l1 x)) =
     Inr [\<lparr>name = node_name lhs, parent = None, type = Some ''number'',
           defaultValue = Some (JNumber x)\<rparr>]
   \<and> parseAssignmentParam (AssignmentPattern l lhs (StringLiteral l2 s)) =
     Inr [\<lparr>name = node_name lhs, parent = None, type = Some ''string'',
           defaultValue = Some (JString s)\<rparr>]
   \<and> (parse parser code lineNumArg = Inr (Some fd) \<longrightarrow>
      (\<exists>ast fn ps. getAST parser code = Inr ast
         \<and> getNode ast (case lineNumArg of None \<Rightarrow> 1 | Some n \<Rightarrow> n) = Inr (Some fn)
         \<and> fn_params fn = Some ps
         \<and> (\<forall>d \<in> set (params fd). \<forall>v. defaultValue d = Some v \<longrightarrow>
              (\<exists>p \<in> set (concat (map paramNodes ps)). \<exists>lhs r.
                 node_type p = ''AssignmentPattern'' \<and> node_left p = Some lhs
                 \<and> node_right p = Some r \<and> name d = node_name lhs
                 \<and> ((\<exists>lr x. r = NumericLiteral lr x \<and> type d = Some ''number''
                        \<and> v = JNumber x)
                    \<or> (\<exists>lr s. r = StringLiteral lr s \<and> type d = Some ''string''
                        \<and> v = JString s)
                    \<or> (node_type r = ''ArrayExpression'' \<and> type d = Some ''array''
                        \<and> v = JString ''[]'')
                    \<or> (node_type r = ''ObjectExpression'' \<and> type d = Some ''object''
                        \<and> v = JString ''{}''))))))"
proof (intro conjI impI)
  show "parseAssignmentParam (AssignmentPattern l lhs (NumericLiteral l1 x)) =
      Inr [\<lparr>name = node_name lhs, parent = None, type = Some ''number'',
            defaultValue = Some (JNumber x)\<rparr>]"
    by (simp add: parseAssignmentParam_def)
  show "parseAssignmentParam (AssignmentPattern l lhs (StringLiteral l2 s)) =
      Inr [\<lparr>name = node_name lhs, parent = None, type = Some ''string'',
            defaultValue = Some (JString s)\<rparr>]"
    by (simp add: parseAssignmentParam_def)
  assume "parse parser code lineNumArg = Inr (Some fd)"
  then obtain ast fn ps where a: "getAST parser code = Inr ast"
    and g: "getNode ast (case lineNumArg of None \<Rightarrow> 1 | Some n \<Rightarrow> n) = Inr (Some fn)"
    and p: "fn_params fn = Some ps" and s: "simplifyParams ps = Inr (params fd)"
    using parse_Some_located by blast
  have "\<forall>d \<in> set (params fd). defaultOrigin (concat (map paramNodes ps)) d"
    using defaultOrigin_simplifyParams [OF s] by blast
  with a g p show "\<exists>ast fn ps. getAST parser code = Inr ast
      \<and> getNode ast (case lineNumArg of None \<Rightarrow> 1 | Some n \<Rightarrow> n) = Inr (Some fn)
      \<and> fn_params fn = Some ps
      \<and> (\<forall>d \<in> set (params fd). \<forall>v. defaultValue d = Some v \<longrightarrow>
           (\<exists>p \<in> set (concat (map paramNodes ps)). \<exists>lhs r.
              node_type p = ''AssignmentPattern'' \<and> node_left p = Some lhs
              \<and> node_right p = Some r \<and> name d = node_name lhs
              \<and> ((\<exists>lr x. r = NumericLiteral lr x \<and> type d = Some ''number''
                     \<and> v = JNumber x)
                 \<or> (\<exists>lr s. r = StringLiteral lr s \<and> type d = Some ''string''
                     \<and> v = JString s)
                 \<or> (node_type r = ''ArrayExpression'' \<and> type d = Some ''array''
                     \<and> v = JString ''[]'')
                 \<or> (node_type r = ''ObjectExpression'' \<and> type d = Some ''object''
                     \<and> v = JString ''{}''))))"
    unfolding defaultOrigin_def rendersDefault_def by blast
qed

text \<open>
  The amended claim at \<^verbatim>\<open>function f({x, y = 1}, z) {}\<close>: the default value of the
  descriptor of \<open>y\<close> is the number of the numeric literal that is the default of a
  parameter named \<open>y\<close>.
\<close>

theorem C6_default_value_kinds_witness:
  "parse (\<lambda>code. Inr ast_destructured) ''function f({x, y = 1}, z) {}'' None =
     Inr (Some \<lparr>fname = Some ''f'', location = \<lparr>line = 1, column = 0\<rparr>,
       params =
         [\<lparr>name = Some ''Unknown'', parent = None, type = Some ''object'',
           defaultValue = None\<rparr>,
          \<lparr>name = Some ''x'', parent = Some ''Unknown'', type = None, defaultValue = None\<rparr>,
          \<lparr>name = Some ''y'', parent = Some ''Unknown'', type = Some ''number'',
           defaultValue = Some (JNumber 1)\<rparr>,
          \<lparr>name = Some ''z'', parent = None, type = None, defaultValue = None\<rparr>],
       freturns = \<lparr>returns = False\<rparr>\<rparr>)
   \<and> (\<exists>p \<in> set (concat (map paramNodes [ObjectPattern (span 1 11 1 21) param_x_y, param_z])).
        \<exists>lhs lr x. node_type p = ''AssignmentPattern'' \<and> node_left p = Some lhs
          \<and> node_right p = Some (NumericLiteral lr x) \<and> Some ''y'' = node_name lhs
          \<and> JNumber 1 = JNumber x)"
proof -
  let ?y = "\<lparr>name = Some ''y'', parent = Some ''Unknown'', type = Some ''number'',
      defaultValue = Some (JNumber 1)\<rparr>"
  let ?fd = "\<lparr>fname = Some ''f'', location = \<lparr>line = 1, column = 0\<rparr>,
      params =
        [\<lparr>name = Some ''Unknown'', parent = None, type = Some ''object'',
          defaultValue = None\<rparr>,
         \<lparr>name = Some ''x'', parent = Some ''Unknown'', type = None, defaultValue = None\<rparr>,
         ?y,
         \<lparr>name = Some ''z'', parent = None, type = None, defaultValue = None\<rparr>],
      freturns = \<lparr>returns = False\<rparr>\<rparr>"
  let ?ps = "[ObjectPattern (span 1 11 1 21) param_x_y, param_z]"
  have p: "parse (\<lambda>code. Inr ast_destructured) ''function f({x, y = 1}, z) {}'' None =
      Inr (Some ?fd)"
    by code_simp
  have g: "getNode ast_destructured 1 =
      Inr (Some \<lparr>fn_id = Some (IdObject (Some ''f'')), fn_loc = span 1 0 1 28,
        fn_params = Some ?ps\<rparr>)"
    by code_simp
  note c6 = C6_default_value_kinds [where parser = "\<lambda>code. Inr ast_destructured"
      and code = "''function f({x, y = 1}, z) {}''" and lineNumArg = None and fd = ?fd,
      THEN conjunct2, THEN conjunct2, rule_format, OF p]
  then obtain ast fn ps where a: "getAST (\<lambda>code. Inr ast_destructured)
        ''function f({x, y = 1}, z) {}'' = Inr ast"
    and n: "getNode ast (case None of None \<Rightarrow> 1 | Some n \<Rightarrow> n) = Inr (Some fn)"
    and f: "fn_params fn = Some ps"
    and all: "\<forall>d \<in> set (params ?fd). \<forall>v. defaultValue d = Some v \<longrightarrow>
      (\<exists>p \<in> set (concat (map paramNodes ps)). \<exists>lhs r.
         node_type p = ''AssignmentPattern'' \<and> node_left p = Some lhs
         \<and> node_right p = Some r \<and> name d = node_name lhs
         \<and> ((\<exists>lr x. r = NumericLiteral lr x \<and> type d = Some ''number'' \<and> v = JNumber x)
            \<or> (\<exists>lr s. r = StringLiteral lr s \<and> type d = Some ''string'' \<and> v = JString s)
            \<or> (node_type r = ''ArrayExpression'' \<and> type d = Some ''array''
                \<and> v = JString ''[]'')
            \<or> (node_type r = ''ObjectExpression'' \<and> type d = Some ''object''
                \<and> v = JString ''{}'')))"
    by blast
  from a have "ast = ast_destructured"
    by (simp add: getAST_def)
  with n g have "fn = \<lparr>fn_id = Some (IdObject (Some ''f'')), fn_loc = span 1 0 1 28,
      fn_params = Some ?ps\<rparr>"
    by simp
  with f have ps: "ps = ?ps"
    by auto
  have "?y \<in> set (params ?fd)" and "defaultValue ?y = Some (JNumber 1)"
    by simp_all
  with all have "\<exists>p \<in> set (concat (map paramNodes ps)). \<exists>lhs r.
      node_type p = ''AssignmentPattern'' \<and> node_left p = Some lhs
      \<and> node_right p = Some r \<and> name ?y = node_name lhs
      \<and> ((\<exists>lr x. r = NumericLiteral lr x \<and> type ?y = Some ''number'' \<and> JNumber 1 = JNumber x)
         \<or> (\<exists>lr s. r = StringLiteral lr s \<and> type ?y = Some ''string''
             \<and> JNumber 1 = JString s)
         \<or> (node_type r = ''ArrayExpression'' \<and> type ?y = Some ''array''
             \<and> JNumber 1 = JString ''[]'')
         \<or> (node_type r = ''ObjectExpression'' \<and> type ?y = Some ''object''
             \<and> JNumber 1 = JString ''{}''))"
    by blast
  then have "\<exists>p \<in> set (concat (map paramNodes ?ps)).
      \<exists>lhs lr x. node_type p = ''AssignmentPattern'' \<and> node_left p = Some lhs
        \<and> node_right p = Some (NumericLiteral lr x) \<and> Some ''y'' = node_name lhs
        \<and> JNumber 1 = JNumber x"
    unfolding ps by (simp del: set_concat) blast
  with p show ?thesis
    by (rule conjI)
qed

text \<open>
  C7. A top-level parameter of a kind outside the four variants makes the call fail with
  \<open>UnknownParamType\<close> carrying the kind name. The program does not do this for a function
  declaration without a name: for \<^verbatim>\<open>export default function ([b]) {}\<close> and target
  line 1 the located node has the \<open>id\<close> \<open>null\<close>, \<open>simplifyNode\<close> reads \<open>node.id.name\<close> before
  the parameters, and \<open>parse\<close> raises a \<open>TypeError\<close>; the error
  \<open>Unknown param type: ArrayPattern\<close>, which the simplifier raises for these parameters,
  is never reached.
\<close>

theorem C7_anonymous_default_export_raises_type_error:
  "getNode ast_anonymous_default_export 1 =
     Inr (Some \<lparr>fn_id = None, fn_loc = span 1 0 1 32,
       fn_params = Some [Other ''ArrayPattern'' (span 1 25 1 28)
         [Identifier (span 1 26 1 27) ''b'']]\<rparr>)
   \<and> simplifyParams [Other ''ArrayPattern'' (span 1 25 1 28)
         [Identifier (span 1 26 1 27) ''b'']] =
       Inl (Error ''Unknown param type: ArrayPattern'')
   \<and> parse (\<lambda>code. Inr ast_anonymous_default_export)
         ''export default function ([b]) {}'' (Some 1) = Inl TypeError"
  by code_simp

text \<open>
  C8. A function that is the direct payload of an export statement takes the location of
  the export statement, also when it is a function expression bound by a variable
  declaration. The program does this for function declarations only: for
  \<^verbatim>\<open>export const f = function () {};\<close> the located node has the location of the
  variable declaration (column 7), not that of the export statement (column 0).
\<close>

theorem C8_exported_variable_keeps_own_location:
  "getNode ast_export_const 1 =
     Inr (Some \<lparr>fn_id = Some (IdObject (Some ''f'')), fn_loc = span 1 7 1 32,
                fn_params = Some []\<rparr>)
   \<and> span 1 7 1 32 \<noteq> span 1 0 1 32
   \<and> parse (\<lambda>code. Inr ast_export_const) ''export const f = function () {};'' (Some 1) =
     Inr (Some \<lparr>fname = Some ''f'', location = \<lparr>line = 1, column = 7\<rparr>, params = [],
                freturns = \<lparr>returns = False\<rparr>\<rparr>)"
  by code_simp

text \<open>
  C9. The location mapper is the total function
  \<open>(line, column) \<mapsto> (max (line - 1) 1, column)\<close> of the start of a location; it returns no
  error. Whenever \<open>parse\<close> returns a descriptor for a located function node, the
  descriptor's location is the image of the node's location.
\<close>

theorem C9_location_mapping:
  "line (simplifyLocation loc) = max (line (start loc) - 1) 1
   \<and> column (simplifyLocation loc) = column (start loc)
   \<and> (getAST parser code = Inr ast \<longrightarrow> getNode ast lineNum = Inr (Some fn) \<longrightarrow>
        parse parser code (Some lineNum) = Inr (Some d) \<longrightarrow>
          line (location d) = max (line (start (fn_loc fn)) - 1) 1
          \<and> column (location d) = column (start (fn_loc fn)))"
  by (auto simp: simplifyLocation_def parse_located split: sum.splits
      dest!: simplifyNode_location)

text \<open>The claim at a function on line 3, with target line 2.\<close>

theorem C9_location_mapping_witness:
  "getAST (\<lambda>code. Inr ast_third_line) [] = Inr ast_third_line
   \<and> getNode ast_third_line 2 =
       Inr (Some \<lparr>fn_id = Some (IdObject (Some ''f'')), fn_loc = span 3 0 3 19,
                  fn_params = Some [Identifier (span 3 11 3 12) ''a'',
                                    Identifier (span 3 14 3 15) ''b'']\<rparr>)
   \<and> parse (\<lambda>code. Inr ast_third_line) [] (Some 2) =
       Inr (Some \<lparr>fname = Some ''f'', location = \<lparr>line = 2, column = 0\<rparr>,
         params = [\<lparr>name = Some ''a'', parent = None, type = None, defaultValue = None\<rparr>,
                   \<lparr>name = Some ''b'', parent = None, type = None, defaultValue = None\<rparr>],
         freturns = \<lparr>returns = False\<rparr>\<rparr>)
   \<and> line (simplifyLocation (span 3 0 3 19)) = 2
   \<and> column (simplifyLocation (span 3 0 3 19)) = 0"
proof -
  let ?fn = "\<lparr>fn_id = Some (IdObject (Some ''f'')), fn_loc = span 3 0 3 19,
      fn_params = Some [Identifier (span 3 11 3 12) ''a'', Identifier (span 3 14 3 15) ''b'']\<rparr>"
  let ?d = "\<lparr>fname = Some ''f'', location = \<lparr>line = 2, column = 0\<rparr>,
      params = [\<lparr>name = Some ''a'', parent = None, type = None, defaultValue = None\<rparr>,
                \<lparr>name = Some ''b'', parent = None, type = None, defaultValue = None\<rparr>],
      freturns = \<lparr>returns = False\<rparr>\<rparr>"
  have a: "getAST (\<lambda>code. Inr ast_third_line) [] = Inr ast_third_line"
    by (simp add: getAST_def)
  have g: "getNode ast_third_line 2 = Inr (Some ?fn)"
    by code_simp
  have p: "parse (\<lambda>code. Inr ast_third_line) [] (Some 2) = Inr (Some ?d)"
    by code_simp
  from C9_location_mapping [of "span 3 0 3 19" "\<lambda>code. Inr ast_third_line" "[]"
      ast_third_line 2 ?fn ?d] a g p
  show ?thesis by (simp add: span_def)
qed

text \<open>
  C10. An arrow function is never matched, so with one on the target line and no other
  function \<open>parse\<close> returns \<open>null\<close>. The program does not return \<open>null\<close> for the three-line
  arrow function below at target line 1: the arrow function is not matched, and the
  traversal then raises a \<open>TypeError\<close> at \<^verbatim>\<open>let x;\<close> on line 2.
\<close>

theorem C10_arrow_with_uninitialised_let_raises:
  "parse (\<lambda>code. Inr ast_arrow_with_let) ''const f = () => {  let x;};'' (Some 1) =
     Inl TypeError"
  by code_simp

end
